theory Spec2Isabelle
  imports Complex_Main "HOL-Library.Word"
begin

section \<open>Arrays, errors and pixels\<close>

text \<open>
  A two-dimensional numpy array is its shape together with its indexing function
  (\<open>item a y x\<close> is \<^verbatim>\<open>a[y, x]\<close>); only the cells inside the shape are part of the
  array. Palette-index arrays are \<^verbatim>\<open>uint8\<close> arrays, the index 255 is the transparent
  one. An RGBA image (shape \<^verbatim>\<open>(h, w, 4)\<close>) is a two-dimensional array of four bytes.
\<close>

record 'a ndarray =
  shape0 :: nat
  shape1 :: nat
  item :: "nat \<Rightarrow> nat \<Rightarrow> 'a"

type_synonym pix = "8 word"
type_synonym rgba = "8 word \<times> 8 word \<times> 8 word \<times> 8 word"

datatype error =
    ValueError string
  | ZeroDivisionError
  | TypeError
  | AttributeError
  | IndexError
  | AssertionError
  | IntegrityError
  | OverflowError
  | TypingError
  | Exception string

definition same_shape :: "'a ndarray \<Rightarrow> 'b ndarray \<Rightarrow> bool" where
  "same_shape a b = (shape0 a = shape0 b \<and> shape1 a = shape1 b)"

text \<open>\<^verbatim>\<open>a.shape == b.shape and (a == b).all()\<close>\<close>

definition array_equal :: "'a ndarray \<Rightarrow> 'a ndarray \<Rightarrow> bool" where
  "array_equal a b =
     (same_shape a b \<and>
      (\<forall>y \<in> set [0..<shape0 a]. \<forall>x \<in> set [0..<shape1 a]. item a y x = item b y x))"

text \<open>\<^verbatim>\<open>int(np.sum(mask))\<close> of a boolean array.\<close>

definition count_true :: "bool ndarray \<Rightarrow> nat" where
  "count_true m =
     (\<Sum>y \<leftarrow> [0..<shape0 m]. \<Sum>x \<leftarrow> [0..<shape1 m]. if item m y x then 1 else 0)"

section \<open>Style codec: decoding\<close>

definition alpha :: "rgba \<Rightarrow> 8 word" where
  "alpha p = (case p of (r, g, b, a) \<Rightarrow> a)"

definition opaque :: "rgba \<Rightarrow> rgba" where
  "opaque p = (case p of (r, g, b, a) \<Rightarrow> (r, g, b, 255))"

text \<open>
  The two inner loops of \<^verbatim>\<open>fast_detemplatize\<close> visit the sub-pixels \<open>(j, i)\<close> of a
  block row by row and stop at the first one whose alpha is above 128.
\<close>

definition block_positions :: "nat \<Rightarrow> (nat \<times> nat) list" where
  "block_positions block_size =
     concat (map (\<lambda>j. map (\<lambda>i. (j, i)) [0..<block_size]) [0..<block_size])"

fun scan_block :: "rgba ndarray \<Rightarrow> nat \<Rightarrow> nat \<Rightarrow> nat \<Rightarrow> (nat \<times> nat) list \<Rightarrow> rgba" where
  "scan_block array block_size y x [] = (0, 0, 0, 0)"
| "scan_block array block_size y x ((j, i) # rest) =
     (let py = y * block_size + j; px = x * block_size + i
      in if unat (alpha (item array py px)) > 128 then opaque (item array py px)
         else scan_block array block_size y x rest)"

definition fast_detemplatize :: "rgba ndarray \<Rightarrow> nat \<Rightarrow> nat \<Rightarrow> nat \<Rightarrow> rgba ndarray" where
  "fast_detemplatize array true_height true_width block_size =
     \<lparr>shape0 = true_height, shape1 = true_width,
      item = (\<lambda>y x. scan_block array block_size y x (block_positions block_size))\<rparr>"

text \<open>
  \<^verbatim>\<open>detemplatize(img_raw, true_width)\<close>. Python's \<^verbatim>\<open>//\<close> on integers is floor
  division, which is \<open>div\<close> on \<open>int\<close>, and raises \<^verbatim>\<open>ZeroDivisionError\<close> for a zero
  divisor: that happens at \<^verbatim>\<open>img_raw.shape[0] // block_size\<close> when the true width
  is larger than the image.
\<close>

definition detemplatize :: "rgba ndarray \<Rightarrow> int \<Rightarrow> error + rgba ndarray" where
  "detemplatize img_raw true_width =
     (if true_width \<le> 0 \<or> int (shape1 img_raw) div true_width = 1 then Inr img_raw
      else
        let block_size = int (shape1 img_raw) div true_width in
        if block_size = 0 then Inl ZeroDivisionError
        else
          let true_height = int (shape0 img_raw) div block_size
          in Inr (fast_detemplatize img_raw (nat true_height) (nat true_width) (nat block_size)))"


section \<open>Slicing and assignment\<close>

text \<open>
  Python normalises a slice bound \<open>i\<close> on an axis of length \<open>n\<close>: a negative bound
  counts from the end, and the result is clamped to \<open>0 .. n\<close>.
\<close>

definition slice_index :: "nat \<Rightarrow> int \<Rightarrow> nat" where
  "slice_index n i = (if i < 0 then nat (max 0 (int n + i)) else min n (nat i))"

text \<open>\<^verbatim>\<open>a[y0:y1, x0:x1]\<close>\<close>

definition slice2 :: "'a ndarray \<Rightarrow> int \<Rightarrow> int \<Rightarrow> int \<Rightarrow> int \<Rightarrow> 'a ndarray" where
  "slice2 a y0 y1 x0 x1 =
     (let ly = slice_index (shape0 a) y0; hy = slice_index (shape0 a) y1;
          lx = slice_index (shape1 a) x0; hx = slice_index (shape1 a) x1
      in \<lparr>shape0 = hy - ly, shape1 = hx - lx, item = (\<lambda>y x. item a (ly + y) (lx + x))\<rparr>)"

text \<open>\<^verbatim>\<open>np.full_like(a, v)\<close> and \<^verbatim>\<open>np.full((h, w), v)\<close>\<close>

definition full :: "nat \<Rightarrow> nat \<Rightarrow> 'a \<Rightarrow> 'a ndarray" where
  "full h w v = \<lparr>shape0 = h, shape1 = w, item = (\<lambda>y x. v)\<rparr>"

definition full_like :: "'b ndarray \<Rightarrow> 'a \<Rightarrow> 'a ndarray" where
  "full_like a v = full (shape0 a) (shape1 a) v"

text \<open>
  \<^verbatim>\<open>target[y0:y1, x0:x1] = src\<close>. numpy broadcasts \<open>src\<close> to the shape of the slice: on
  each axis the lengths are equal or \<open>src\<close> has length 1; otherwise it raises
  \<^verbatim>\<open>ValueError\<close>.
\<close>

definition broadcasts_to :: "nat \<Rightarrow> nat \<Rightarrow> bool" where
  "broadcasts_to n m = (n = m \<or> n = 1)"

definition assign_slice ::
  "'a ndarray \<Rightarrow> int \<Rightarrow> int \<Rightarrow> int \<Rightarrow> int \<Rightarrow> 'a ndarray \<Rightarrow> error + 'a ndarray" where
  "assign_slice target y0 y1 x0 x1 src =
     (let ly = slice_index (shape0 target) y0; hy = slice_index (shape0 target) y1;
          lx = slice_index (shape1 target) x0; hx = slice_index (shape1 target) x1
      in if broadcasts_to (shape0 src) (hy - ly) \<and> broadcasts_to (shape1 src) (hx - lx)
         then Inr (target\<lparr>item := (\<lambda>y x.
                if ly \<le> y \<and> y < hy \<and> lx \<le> x \<and> x < hx
                then item src (if shape0 src = 1 then 0 else y - ly)
                              (if shape1 src = 1 then 0 else x - lx)
                else item target y x)\<rparr>)
         else Inl (ValueError ''could not broadcast input array''))"

section \<open>The template entity\<close>

text \<open>
  The fields of \<^verbatim>\<open>Template\<close> (and of its subclass \<^verbatim>\<open>Combo\<close>, told apart by
  \<open>is_combo\<close>). A field that Python initialises with \<^verbatim>\<open>None\<close> is an option. The
  field \<^verbatim>\<open>id\<close> is \<open>template_id\<close> here. The constructor's call of \<^verbatim>\<open>reduce\<close> (colour
  matching, from a module outside this development) is not modelled: a template is
  built from its palettized array.
\<close>

record template =
  url :: "string option"
  stylized_url :: "string option"
  title :: "string option"
  ox :: int
  oy :: int
  canvas_code :: string
  owner_id :: "int option"
  hidden :: "bool option"
  name :: "string option"
  template_id :: "int option"
  palettized_array :: "pix ndarray"
  width :: nat
  height :: nat
  total_size :: int
  placeable_mask :: "bool ndarray option"
  total_placeable :: "int option"
  placed_mask :: "bool ndarray option"
  current_progress :: "int option"
  is_combo :: bool

text \<open>The canvas snapshot held by the global \<^verbatim>\<open>stats\<close> object.\<close>

record stats =
  board_array :: "pix ndarray"
  placemap_array :: "pix ndarray"
  virginmap_array :: "pix ndarray"

text \<open>In \<^verbatim>\<open>crop_array_to_template\<close> the local \<^verbatim>\<open>_cropped_array\<close> is \<open>sliced_array\<close>.\<close>

definition crop_array_to_template :: "template \<Rightarrow> pix ndarray \<Rightarrow> error + pix ndarray" where
  "crop_array_to_template t array =
     (let y0 = min (max 0 (oy t)) (int (shape0 array));
          y1 = max 0 (min (int (shape0 array)) (oy t + int (height t)));
          x0 = min (max 0 (ox t)) (int (shape1 array));
          x1 = max 0 (min (int (shape1 array)) (ox t + int (width t)));
          sliced_array = slice2 array y0 y1 x0 x1;
          cropped_array = full_like (palettized_array t) 255
      in assign_slice cropped_array (y0 - oy t) (y1 - oy t) (x0 - ox t) (x1 - ox t)
           sliced_array)"

text \<open>
  \<^verbatim>\<open>placeable_mask = palettized_array != 255; placeable_mask[cropped_placemap == 255] = False\<close>
\<close>

definition make_placeable_mask :: "template \<Rightarrow> stats \<Rightarrow> error + bool ndarray" where
  "make_placeable_mask t st =
     (case crop_array_to_template t (placemap_array st) of
        Inl e \<Rightarrow> Inl e
      | Inr cropped_placemap \<Rightarrow>
          Inr \<lparr>shape0 = shape0 (palettized_array t), shape1 = shape1 (palettized_array t),
               item = (\<lambda>y x. if item cropped_placemap y x = 255 then False
                               else item (palettized_array t) y x \<noteq> 255)\<rparr>)"

text \<open>
  \<^verbatim>\<open>placed_mask = palettized_array == cropped_board; placed_mask[~self.placeable_mask] = False\<close>.
  \<^verbatim>\<open>~None\<close> raises \<^verbatim>\<open>TypeError\<close>; a boolean index whose shape differs from the
  indexed array raises \<^verbatim>\<open>IndexError\<close>.
\<close>

definition make_placed_mask :: "template \<Rightarrow> pix ndarray \<Rightarrow> error + bool ndarray" where
  "make_placed_mask t board =
     (case crop_array_to_template t board of
        Inl e \<Rightarrow> Inl e
      | Inr cropped_board \<Rightarrow>
          (case placeable_mask t of
             None \<Rightarrow> Inl TypeError
           | Some pm \<Rightarrow>
               if \<not> same_shape pm (palettized_array t) then Inl IndexError
               else Inr \<lparr>shape0 = shape0 (palettized_array t),
                         shape1 = shape1 (palettized_array t),
                         item = (\<lambda>y x. if \<not> item pm y x then False
                                         else item (palettized_array t) y x
                                              = item cropped_board y x)\<rparr>))"

definition update_progress :: "template \<Rightarrow> pix ndarray \<Rightarrow> error + int \<times> template" where
  "update_progress t board =
     (case make_placed_mask t board of
        Inl e \<Rightarrow> Inl e
      | Inr placed \<Rightarrow>
          Inr (int (count_true placed),
               t\<lparr>placed_mask := Some placed, current_progress := Some (int (count_true placed))\<rparr>))"

text \<open>\<^verbatim>\<open>Template.__init__\<close>, after \<^verbatim>\<open>reduce\<close>.\<close>

definition not_transparent :: "pix ndarray \<Rightarrow> bool ndarray" where
  "not_transparent a = \<lparr>shape0 = shape0 a, shape1 = shape1 a, item = (\<lambda>y x. item a y x \<noteq> 255)\<rparr>"

definition Template_init ::
  "string \<Rightarrow> string \<Rightarrow> string option \<Rightarrow> pix ndarray \<Rightarrow> int \<Rightarrow> int \<Rightarrow> string \<Rightarrow> stats
     \<Rightarrow> error + template" where
  "Template_init u su ti arr x y code st =
     (let t0 = \<lparr>url = Some u, stylized_url = Some su, title = ti, ox = x, oy = y,
                canvas_code = code, owner_id = None, hidden = None, name = None,
                template_id = None, palettized_array = arr,
                width = shape1 arr, height = shape0 arr,
                total_size = int (count_true (not_transparent arr)),
                placeable_mask = None, total_placeable = None,
                placed_mask = None, current_progress = None, is_combo = False\<rparr>
      in case make_placeable_mask t0 st of
           Inl e \<Rightarrow> Inl e
         | Inr pm \<Rightarrow>
             Inr (t0\<lparr>placeable_mask := Some pm, total_placeable := Some (int (count_true pm))\<rparr>))"

text \<open>
  \<^verbatim>\<open>crop_to_canvas\<close>: the slices \<^verbatim>\<open>[min_y:, min_x:]\<close> and \<^verbatim>\<open>[:height, :width]\<close>
  have bounds that are never negative.
\<close>

definition outside_canvas :: error where
  "outside_canvas = ValueError ''The template is outside canvas boundaries.''"

definition crop_to_canvas :: "template \<Rightarrow> pix ndarray \<Rightarrow> error + pix ndarray \<times> int \<times> int" where
  "crop_to_canvas t canvas =
     (let min_x = (if ox t > 0 then 0 else - ox t);
          min_y = (if oy t > 0 then 0 else - oy t);
          array = slice2 (palettized_array t) min_y (int (shape0 (palettized_array t)))
                    min_x (int (shape1 (palettized_array t)));
          x = max 0 (ox t); y = max 0 (oy t)
      in if y > int (shape0 canvas) \<or> x > int (shape1 canvas) then Inl outside_canvas
         else
           let height = (if y + int (shape0 array) > int (shape0 canvas)
                         then int (shape0 canvas) - y else int (shape0 array));
               width = (if x + int (shape1 array) > int (shape1 canvas)
                        then int (shape1 canvas) - x else int (shape1 array))
           in Inr (slice2 array 0 height 0 width, x, y))"

text \<open>
  The placement rectangle of a template and the canvas share a cell. This is the
  specification's notion of overlap, used to state the property of \<open>crop_to_canvas\<close>.
\<close>

definition overlaps_canvas :: "template \<Rightarrow> pix ndarray \<Rightarrow> bool" where
  "overlaps_canvas t canvas =
     (max 0 (ox t) < min (int (shape1 canvas)) (ox t + int (shape1 (palettized_array t))) \<and>
      max 0 (oy t) < min (int (shape0 canvas)) (oy t + int (shape0 (palettized_array t))))"

section \<open>Progress history and ETA\<close>

text \<open>
  A \<^verbatim>\<open>datetime\<close> is its number of microseconds, a \<^verbatim>\<open>timedelta\<close> a difference of
  two. In \<open>get_eta\<close> Python's floats are exact rationals: the speed and the ETA, in
  hours, are of type \<open>rat\<close>, without rounding and without the bounds of
  \<^verbatim>\<open>timedelta\<close>; this is exact up to the test \<^verbatim>\<open>speed == 0\<close>, and beyond it wherever
  the floating-point results are exact and in range. \<open>get_eta_fp\<close> below is the same
  function over floating-point numbers. The history reader \<^verbatim>\<open>db_templates.get_template_progress\<close> and
  the formatter \<^verbatim>\<open>td_format\<close> belong to modules outside this development and are
  parameters, as is the clock value \<^verbatim>\<open>round_minutes_down(datetime.utcnow())\<close>.
\<close>

datatype eta_value = PyNone | PyStr string | PyInt int | PyTimedelta rat

type_synonym history = "int \<Rightarrow> (int \<times> int) option"

definition hour :: int where
  "hour = 3600000000"

definition never_string :: string where
  "never_string = ''Never'' @ [CHR 0xE2, CHR 0x84, CHR 0xA2, CHR 0xEF, CHR 0xB8, CHR 0x8F]"

definition get_progress_at :: "history \<Rightarrow> int \<Rightarrow> int option \<times> int option" where
  "get_progress_at db dt =
     (case db dt of Some (d, progress) \<Rightarrow> (Some d, Some progress) | None \<Rightarrow> (None, None))"

definition get_eta ::
  "template \<Rightarrow> history \<Rightarrow> (rat \<Rightarrow> string) \<Rightarrow> int \<Rightarrow> bool
     \<Rightarrow> error + eta_value \<times> rat option" where
  "get_eta t db td_format now as_string =
     (let td = 7 * 24 * hour in
      case (get_progress_at db (now - td), get_progress_at db now) of
        ((Some old_datetime, Some old_progress), (Some now_datetime, Some now_progress)) \<Rightarrow>
          (let diff_pixels = now_progress - old_progress;
               diff_time = now_datetime - old_datetime
           in case (total_placeable t, current_progress t) of
                (Some tp, Some cp) \<Rightarrow>
                  (let togo = tp - cp in
                   if tp - cp = 0
                   then Inr (if as_string then (PyStr ''done'', None) else (PyInt 0, None))
                   else if diff_time = 0 then Inr (PyNone, None)
                   else
                     let speed = rat_of_int diff_pixels
                                 / (rat_of_int diff_time / rat_of_int hour)
                     in if speed = 0
                        then Inr (if as_string then (PyStr never_string, Some speed)
                                  else (PyNone, Some speed))
                        else
                          let eta = rat_of_int togo / speed in
                          if eta \<le> 0
                          then
                            (let eta = rat_of_int now_progress / speed
                             in Inr (if as_string
                                     then (PyStr (''-'' @ td_format (- eta)), Some speed)
                                     else (PyTimedelta eta, Some speed)))
                          else if as_string
                          then Inr (if eta * 60 < 1 then (PyStr ''< 1m'', Some speed)
                                    else (PyStr (td_format eta), Some speed))
                          else Inr (PyTimedelta eta, Some speed))
              | _ \<Rightarrow> Inl TypeError)
      | _ \<Rightarrow> Inr (PyNone, None))"





section \<open>The compositor\<close>

text \<open>
  \<^verbatim>\<open>background[oy : oy + arr.shape[0], ox : ox + arr.shape[1]][mask] = arr[mask]\<close> with
  \<^verbatim>\<open>mask = arr != 255\<close>: the slice is a view of the background, and the boolean index
  must have the shape of that view.
\<close>

definition paste :: "pix ndarray \<Rightarrow> pix ndarray \<Rightarrow> int \<Rightarrow> int \<Rightarrow> error + pix ndarray" where
  "paste background arr x y =
     (let ly = slice_index (shape0 background) y;
          hy = slice_index (shape0 background) (y + int (shape0 arr));
          lx = slice_index (shape1 background) x;
          hx = slice_index (shape1 background) (x + int (shape1 arr))
      in if hy - ly \<noteq> shape0 arr \<or> hx - lx \<noteq> shape1 arr then Inl IndexError
         else Inr (background\<lparr>item := (\<lambda>cy cx.
                if ly \<le> cy \<and> cy < hy \<and> lx \<le> cx \<and> cx < hx
                   \<and> item arr (cy - ly) (cx - lx) \<noteq> 255
                then item arr (cy - ly) (cx - lx)
                else item background cy cx)\<rparr>))"

text \<open>
  The loop of \<^verbatim>\<open>layer\<close> over its state \<open>(background, min_x, min_y, max_x, max_y)\<close>.
  \<^verbatim>\<open>crop_to_canvas\<close> is called without argument and reads the board of \<^verbatim>\<open>stats\<close>; its
  \<^verbatim>\<open>ValueError\<close> skips the template.
\<close>

type_synonym layer_state = "pix ndarray \<times> int \<times> int \<times> int \<times> int"

fun layer_loop :: "stats \<Rightarrow> template list \<Rightarrow> layer_state \<Rightarrow> error + layer_state" where
  "layer_loop st [] s = Inr s"
| "layer_loop st (template # rest) (background, min_x, min_y, max_x, max_y) =
     (case crop_to_canvas template (board_array st) of
        Inl (ValueError msg) \<Rightarrow> layer_loop st rest (background, min_x, min_y, max_x, max_y)
      | Inl e \<Rightarrow> Inl e
      | Inr (arr, x, y) \<Rightarrow>
          (case paste background arr x y of
             Inl e \<Rightarrow> Inl e
           | Inr background' \<Rightarrow>
               layer_loop st rest
                 (background', min x min_x, min y min_y,
                  max (x + int (width template)) max_x,
                  max (y + int (height template)) max_y)))"

text \<open>\<^verbatim>\<open>background[placemap != 0] = 255\<close>\<close>

definition mask_placemap :: "pix ndarray \<Rightarrow> pix ndarray \<Rightarrow> pix ndarray" where
  "mask_placemap background placemap =
     background\<lparr>item := (\<lambda>y x. if item placemap y x \<noteq> 0 then 255 else item background y x)\<rparr>"

definition layer ::
  "stats \<Rightarrow> template list \<Rightarrow> pix ndarray option \<Rightarrow> bool \<Rightarrow> bool
     \<Rightarrow> error + int \<times> int \<times> pix ndarray" where
  "layer st templates placemap_arg crop_to_placemap crop_to_template =
     (let placemap = (case placemap_arg of None \<Rightarrow> placemap_array st | Some p \<Rightarrow> p);
          background = full_like placemap 255
      in case layer_loop st templates
                (background, int (shape1 background), int (shape0 background), 0, 0) of
           Inl e \<Rightarrow> Inl e
         | Inr (background, min_x, min_y, max_x, max_y) \<Rightarrow>
             (let background = (if crop_to_placemap then mask_placemap background placemap
                                else background)
              in if crop_to_template
                 then Inr (min_x, min_y, slice2 background min_y max_y min_x max_x)
                 else Inr (0, 0, background)))"

section \<open>The hot-cell locator\<close>

text \<open>\<^verbatim>\<open>np.logical_and(~a, b)\<close>, with numpy's broadcasting of the two shapes.\<close>

definition broadcast_dim :: "nat \<Rightarrow> nat \<Rightarrow> nat option" where
  "broadcast_dim n m =
     (if n = m then Some n else if n = 1 then Some m else if m = 1 then Some n else None)"

definition logical_not :: "bool ndarray \<Rightarrow> bool ndarray" where
  "logical_not a = a\<lparr>item := (\<lambda>y x. \<not> item a y x)\<rparr>"

definition logical_and :: "bool ndarray \<Rightarrow> bool ndarray \<Rightarrow> error + bool ndarray" where
  "logical_and a b =
     (case (broadcast_dim (shape0 a) (shape0 b), broadcast_dim (shape1 a) (shape1 b)) of
        (Some h, Some w) \<Rightarrow>
          Inr \<lparr>shape0 = h, shape1 = w,
               item = (\<lambda>y x. item a (if shape0 a = 1 then 0 else y) (if shape1 a = 1 then 0 else x)
                            \<and> item b (if shape0 b = 1 then 0 else y) (if shape1 b = 1 then 0 else x))\<rparr>
      | _ \<Rightarrow> Inl (ValueError ''operands could not be broadcast together''))"

text \<open>\<^verbatim>\<open>np.pad(mask, [(0, bottom_pad), (0, right_pad)])\<close> pads with \<^verbatim>\<open>False\<close>.\<close>

definition pad :: "bool ndarray \<Rightarrow> nat \<Rightarrow> nat \<Rightarrow> bool ndarray" where
  "pad m bottom_pad right_pad =
     \<lparr>shape0 = shape0 m + bottom_pad, shape1 = shape1 m + right_pad,
      item = (\<lambda>y x. y < shape0 m \<and> x < shape1 m \<and> item m y x)\<rparr>"

text \<open>
  \<^verbatim>\<open>arr.reshape(h // nrows, nrows, -1, ncols).swapaxes(1, 2).reshape(-1, nrows, ncols)\<close>:
  the first reshape reads \<open>arr[a * nrows + b, c * ncols + d]\<close> as the cell
  \<open>[a, b, c, d]\<close>, the swap makes it \<open>[a, c, b, d]\<close>, and the last reshape numbers the
  chunks \<open>(a, c)\<close> row by row.
\<close>

definition to_chunks :: "bool ndarray \<Rightarrow> nat \<Rightarrow> nat \<Rightarrow> error + bool ndarray list" where
  "to_chunks arr nrows ncols =
     (if nrows = 0 \<or> ncols = 0 then Inl ZeroDivisionError
      else if shape0 arr mod nrows \<noteq> 0 \<or> shape1 arr mod ncols \<noteq> 0 then Inl AssertionError
      else Inr (concat (map (\<lambda>a. map (\<lambda>c.
              \<lparr>shape0 = nrows, shape1 = ncols,
               item = (\<lambda>b d. item arr (a * nrows + b) (c * ncols + d))\<rparr>)
              [0..<shape1 arr div ncols]) [0..<shape0 arr div nrows])))"

text \<open>The loop of \<^verbatim>\<open>fast_max_chunk\<close> over \<open>(max_index, chunk_pixels)\<close> and the index \<open>i\<close>.\<close>

fun fast_max_chunk_loop :: "int \<Rightarrow> nat \<Rightarrow> nat \<Rightarrow> bool ndarray list \<Rightarrow> int" where
  "fast_max_chunk_loop max_index chunk_pixels i [] = max_index"
| "fast_max_chunk_loop max_index chunk_pixels i (chunk # rest) =
     (let sum = count_true chunk
      in if sum > chunk_pixels then fast_max_chunk_loop (int i) sum (Suc i) rest
         else fast_max_chunk_loop max_index chunk_pixels (Suc i) rest)"

definition fast_max_chunk :: "bool ndarray list \<Rightarrow> int" where
  "fast_max_chunk chunked_mask = fast_max_chunk_loop (- 1) 0 0 chunked_mask"

text \<open>
  The chunk coordinates that \<^verbatim>\<open>np.unravel_index\<close> returns are numpy \<^verbatim>\<open>int64\<close>
  scalars, and so is everything computed from them. A Python integer that takes part in
  such an operation is converted to \<^verbatim>\<open>int64\<close>, which raises \<^verbatim>\<open>OverflowError\<close> when it
  does not fit, and the result of the operation wraps around.
\<close>

definition int64_operand :: "int \<Rightarrow> error + int" where
  "int64_operand k = (if - (2 ^ 63) \<le> k \<and> k < 2 ^ 63 then Inr k else Inl OverflowError)"

definition int64_wrap :: "int \<Rightarrow> int" where
  "int64_wrap v = (v + 2 ^ 63) mod 2 ^ 64 - 2 ^ 63"

definition int64_mul :: "int \<Rightarrow> int \<Rightarrow> error + int" where
  "int64_mul c k = (case int64_operand k of Inl e \<Rightarrow> Inl e | Inr k' \<Rightarrow> Inr (int64_wrap (c * k')))"

definition int64_add :: "int \<Rightarrow> int \<Rightarrow> error + int" where
  "int64_add c k = (case int64_operand k of Inl e \<Rightarrow> Inl e | Inr k' \<Rightarrow> Inr (int64_wrap (c + k')))"

text \<open>\<^verbatim>\<open>(c * chunk_size) + chunk_size // 2\<close> for a chunk coordinate \<open>c\<close>\<close>

definition coord_in_template :: "int \<Rightarrow> int \<Rightarrow> error + int" where
  "coord_in_template c chunk_size =
     (case int64_mul c chunk_size of
        Inl e \<Rightarrow> Inl e
      | Inr scaled \<Rightarrow> int64_add scaled (chunk_size div 2))"

text \<open>
  \<^verbatim>\<open>find_coords\<close>. \<^verbatim>\<open>~self.placed_mask\<close> raises \<^verbatim>\<open>TypeError\<close> on \<^verbatim>\<open>None\<close>; with a
  placed mask and \<^verbatim>\<open>None\<close> for the placeable mask numpy computes an array of objects,
  which the compiled \<^verbatim>\<open>fast_max_chunk\<close> rejects. A chunk size of zero fails at
  \<^verbatim>\<open>% chunk_size\<close>; a negative one makes both pad widths negative, which \<^verbatim>\<open>np.pad\<close>
  rejects. \<^verbatim>\<open>np.unravel_index(i, [r, c])\<close> is \<open>(i div c, i mod c)\<close>, the pair
  \<^verbatim>\<open>highest_chunk_coords\<close>; \<open>row\<close> and \<open>col\<close> are the two entries of
  \<^verbatim>\<open>coords_in_template\<close>.
\<close>

definition find_coords :: "template \<Rightarrow> int \<Rightarrow> error + int option \<times> int option" where
  "find_coords t chunk_size =
     (case (placed_mask t, placeable_mask t) of
        (None, pm) \<Rightarrow> Inl TypeError
      | (Some placed, None) \<Rightarrow>
          if chunk_size = 0 then Inl ZeroDivisionError
          else if chunk_size < 0
          then Inl (ValueError ''index can't contain negative values'')
          else Inl TypingError
      | (Some placed, Some placeable) \<Rightarrow>
          (case logical_and (logical_not placed) placeable of
             Inl e \<Rightarrow> Inl e
           | Inr togo_mask \<Rightarrow>
               if chunk_size = 0 then Inl ZeroDivisionError
               else if chunk_size < 0
               then Inl (ValueError ''index can't contain negative values'')
               else
                 (let cs = nat chunk_size;
                      right_pad = cs - shape1 togo_mask mod cs;
                      bottom_pad = cs - shape0 togo_mask mod cs;
                      togo_mask = pad togo_mask bottom_pad right_pad
                  in case to_chunks togo_mask cs cs of
                       Inl e \<Rightarrow> Inl e
                     | Inr chunked_mask \<Rightarrow>
                         (let max_index = fast_max_chunk chunked_mask
                          in if max_index = - 1 then Inr (None, None)
                             else
                               let ncols = int (shape1 togo_mask div cs);
                                   (chunk_row, chunk_col) =
                                     (max_index div ncols, max_index mod ncols)
                               in case coord_in_template chunk_row chunk_size of
                                    Inl e \<Rightarrow> Inl e
                                  | Inr row \<Rightarrow>
                                      (case coord_in_template chunk_col chunk_size of
                                         Inl e \<Rightarrow> Inl e
                                       | Inr col \<Rightarrow>
                                           (case int64_add col (ox t) of
                                              Inl e \<Rightarrow> Inl e
                                            | Inr x \<Rightarrow>
                                                (case int64_add row (oy t) of
                                                   Inl e \<Rightarrow> Inl e
                                                 | Inr y \<Rightarrow> Inr (Some x, Some y))))))))"

section \<open>The template registry\<close>

text \<open>
  \<^verbatim>\<open>TemplateManager\<close>. Its field \<^verbatim>\<open>list\<close> is \<open>tlist\<close> here. Python compares
  templates by object identity; a reference to a tracked template is its position in
  the list, or \<open>Combo_ref\<close> for the combo. An operation returns its outcome together
  with the registry as it is when the operation returns or raises.
\<close>

record manager =
  tlist :: "template list"
  progress_admins :: "int list"
  combo :: "template option"
  is_loading :: bool

datatype ref = Combo_ref | List_ref nat

text \<open>
  Python's truth value of an optional flag, identifier or string: \<^verbatim>\<open>None\<close>,
  \<^verbatim>\<open>False\<close>, \<^verbatim>\<open>0\<close> and the empty string are false.
\<close>

definition truthy :: "bool option \<Rightarrow> bool" where
  "truthy b = (case b of None \<Rightarrow> False | Some v \<Rightarrow> v)"

definition truthy_int :: "int option \<Rightarrow> bool" where
  "truthy_int b = (case b of None \<Rightarrow> False | Some v \<Rightarrow> v \<noteq> 0)"

definition truthy_str :: "string option \<Rightarrow> bool" where
  "truthy_str b = (case b of None \<Rightarrow> False | Some v \<Rightarrow> v \<noteq> [])"

text \<open>
  \<^verbatim>\<open>str.lower\<close> on the ASCII letters. A string is its list of bytes; names that pass
  \<open>check_valid_name\<close> are ASCII.
\<close>

definition lower_char :: "char \<Rightarrow> char" where
  "lower_char c =
     (if 65 \<le> (of_char c :: nat) \<and> (of_char c :: nat) \<le> 90 then char_of (of_char c + 32 :: nat)
      else c)"

definition lower :: "string \<Rightarrow> string" where
  "lower s = map lower_char s"

definition reserved_names :: "string list" where
  "reserved_names = [''@combo'', ''combo'', ''global'']"

text \<open>
  \<^verbatim>\<open>re.match(r"^[A-Za-z0-9_-]*$", name)\<close>: \<^verbatim>\<open>$\<close> also matches just before a
  newline that ends the string.
\<close>

definition name_char :: "char \<Rightarrow> bool" where
  "name_char c =
     (let n = (of_char c :: nat)
      in (65 \<le> n \<and> n \<le> 90) \<or> (97 \<le> n \<and> n \<le> 122) \<or> (48 \<le> n \<and> n \<le> 57)
         \<or> c = CHR ''_'' \<or> c = CHR ''-'')"

definition name_matches :: "string \<Rightarrow> bool" where
  "name_matches nm =
     (list_all name_char nm \<or>
      (nm \<noteq> [] \<and> last nm = CHR 0x0A \<and> list_all name_char (butlast nm)))"

definition check_valid_name :: "string \<Rightarrow> error + string" where
  "check_valid_name nm =
     (if \<not> name_matches nm
      then Inl (ValueError ''The template name can only contain letters, numbers, hyphens (`-`) and underscores (`_`).'')
      else if length nm < 2 \<or> length nm > 40
      then Inl (ValueError ''The template name must be between 2 and 40 characters.'')
      else if lower nm \<in> set reserved_names
      then Inl (ValueError ''This name is reserved for the @combo template.'')
      else Inr nm)"

text \<open>The loop of \<^verbatim>\<open>get_template\<close>; \<^verbatim>\<open>temp.name.lower()\<close> fails on \<^verbatim>\<open>None\<close>.\<close>

fun get_template_loop ::
  "template list \<Rightarrow> nat \<Rightarrow> string \<Rightarrow> int option \<Rightarrow> bool \<Rightarrow> error + ref option" where
  "get_template_loop [] i nm owner hid = Inr None"
| "get_template_loop (temp # rest) i nm owner hid =
     (case name temp of
        None \<Rightarrow> Inl AttributeError
      | Some n \<Rightarrow>
          if lower n = lower nm \<and>
             (if hid then truthy (hidden temp) \<and> owner_id temp = owner
              else \<not> truthy (hidden temp))
          then Inr (Some (List_ref i))
          else get_template_loop rest (Suc i) nm owner hid)"

definition get_template :: "manager \<Rightarrow> string \<Rightarrow> int option \<Rightarrow> bool \<Rightarrow> error + ref option" where
  "get_template m nm owner hid =
     (if lower nm \<in> set reserved_names \<and> combo m \<noteq> None then Inr (Some Combo_ref)
      else get_template_loop (tlist m) 0 nm owner hid)"

text \<open>The two list comprehensions, as the positions they select.\<close>

definition get_all_public_templates :: "manager \<Rightarrow> nat list" where
  "get_all_public_templates m =
     filter (\<lambda>i. \<not> truthy (hidden (tlist m ! i))) [0..<length (tlist m)]"

definition get_hidden_templates :: "manager \<Rightarrow> int option \<Rightarrow> nat list" where
  "get_hidden_templates m owner =
     filter (\<lambda>i. truthy (hidden (tlist m ! i)) \<and> owner_id (tlist m ! i) = owner)
       [0..<length (tlist m)]"

definition check_duplicate_template :: "manager \<Rightarrow> template \<Rightarrow> nat option" where
  "check_duplicate_template m template =
     (let list_to_search = (if truthy (hidden template)
                            then get_hidden_templates m (owner_id template)
                            else get_all_public_templates m)
      in find (\<lambda>i. array_equal (palettized_array template) (palettized_array (tlist m ! i))
                   \<and> oy template = oy (tlist m ! i) \<and> ox template = ox (tlist m ! i))
           list_to_search)"

text \<open>The errors of the registry, named as the specification names them.\<close>

definition DuplicateName :: "string \<Rightarrow> error" where
  "DuplicateName nm = ValueError (''There is already a template with the name `'' @ nm @ ''`.'')"

definition DuplicateTemplate :: "string option \<Rightarrow> error" where
  "DuplicateTemplate nm =
     ValueError (''There is already a template with the same image and coords named `''
                 @ (case nm of None \<Rightarrow> ''None'' | Some n \<Rightarrow> n) @ ''`.'')"

definition base64_url :: error where
  "base64_url = ValueError (''You cannot add a template with a base64 URL to the tracker.''
     @ [CHR 0x0A] @ ''Use `/template image:<your template link>` to shorten the link.'')"

definition url_too_long :: error where
  "url_too_long = ValueError ''The template URL cannot be longer than 512 characters.''"

definition startswith :: "string \<Rightarrow> string \<Rightarrow> bool" where
  "startswith s p = (take (length p) s = p)"

text \<open>\<^verbatim>\<open>Combo.__init__\<close>\<close>

definition Combo_init ::
  "string \<Rightarrow> pix ndarray \<Rightarrow> int \<Rightarrow> int \<Rightarrow> string \<Rightarrow> int \<Rightarrow> string \<Rightarrow> template" where
  "Combo_init ti arr x y nm bot_id code =
     \<lparr>url = None, stylized_url = None, title = Some ti, ox = x, oy = y,
      canvas_code = code, owner_id = Some bot_id, hidden = Some False, name = Some nm,
      template_id = None, palettized_array = arr,
      width = shape1 arr, height = shape0 arr,
      total_size = int (count_true (not_transparent arr)),
      placeable_mask = None, total_placeable = None,
      placed_mask = None, current_progress = None, is_combo = True\<rparr>"

text \<open>
  \<^verbatim>\<open>make_combo_image\<close> layers the reversed list, not cropped to the templates.
\<close>

definition make_combo_image :: "manager \<Rightarrow> stats \<Rightarrow> error + pix ndarray" where
  "make_combo_image m st =
     (case layer st (rev (tlist m)) None True False of
        Inl e \<Rightarrow> Inl e
      | Inr (x, y, arr) \<Rightarrow> Inr arr)"

text \<open>\<^verbatim>\<open>self.combo.palettized_array[stats.placemap_array == 255] = 255\<close>\<close>

definition remove_non_placeable :: "pix ndarray \<Rightarrow> pix ndarray \<Rightarrow> error + pix ndarray" where
  "remove_non_placeable arr placemap =
     (if \<not> same_shape placemap arr then Inl IndexError
      else Inr (arr\<lparr>item := (\<lambda>y x. if item placemap y x = 255 then 255 else item arr y x)\<rparr>))"

definition combo_not_initialised :: error where
  "combo_not_initialised = Exception ''Cannot init the combo with empty bot_id or canvas_code''"

definition update_combo ::
  "manager \<Rightarrow> stats \<Rightarrow> int option \<Rightarrow> string option \<Rightarrow> (error + template) \<times> manager" where
  "update_combo m st bot_id code =
     (case make_combo_image m st of
        Inl e \<Rightarrow> (Inl e, m)
      | Inr arr \<Rightarrow>
          (case (case combo m of
                   None \<Rightarrow>
                     (case (bot_id, code) of
                        (Some b, Some cc) \<Rightarrow>
                          if b \<noteq> 0 \<and> cc \<noteq> []
                          then Inr (Combo_init ''@clueless-combo'' arr 0 0 ''@combo'' b cc)
                          else Inl combo_not_initialised
                      | _ \<Rightarrow> Inl combo_not_initialised)
                 | Some c \<Rightarrow>
                     Inr (c\<lparr>palettized_array := arr,
                            canvas_code := (case code of
                                              None \<Rightarrow> canvas_code c
                                            | Some cc \<Rightarrow> if cc \<noteq> [] then cc else canvas_code c)\<rparr>)) of
             Inl e \<Rightarrow> (Inl e, m)
           | Inr c \<Rightarrow>
               (case remove_non_placeable (palettized_array c) (placemap_array st) of
                  Inl e \<Rightarrow> (Inl e, m\<lparr>combo := Some c\<rparr>)
                | Inr arr' \<Rightarrow>
                    (let c1 = c\<lparr>palettized_array := arr'\<rparr> in
                     case make_placeable_mask c1 st of
                       Inl e \<Rightarrow> (Inl e, m\<lparr>combo := Some c1\<rparr>)
                     | Inr pm \<Rightarrow>
                         (let c2 = c1\<lparr>placeable_mask := Some pm,
                                      total_placeable := Some (int (count_true pm))\<rparr>
                          in (Inr c2, m\<lparr>combo := Some c2\<rparr>))))))"

text \<open>
  \<^verbatim>\<open>save\<close>. The record \<open>template\<close> is the caller's object, which is not yet in the
  list; \<open>create_template\<close> stands for \<^verbatim>\<open>db_templates.create_template\<close>, which belongs
  to the storage module outside this development.
\<close>

definition save ::
  "manager \<Rightarrow> stats \<Rightarrow> (template \<Rightarrow> error + int) \<Rightarrow> template \<Rightarrow> string \<Rightarrow> int \<Rightarrow> bool
     \<Rightarrow> (error + unit) \<times> manager" where
  "save m st create_template template0 nm owner hid =
     (let template = template0\<lparr>name := Some nm, owner_id := Some owner, hidden := Some hid\<rparr> in
      case check_valid_name nm of
        Inl e \<Rightarrow> (Inl e, m)
      | Inr nm' \<Rightarrow>
          (let template = template\<lparr>name := Some nm'\<rparr> in
           case (stylized_url template, url template) of
             (Some su, Some u) \<Rightarrow>
               if startswith su ''data:image'' then (Inl base64_url, m)
               else if length u > 512 then (Inl url_too_long, m)
               else
                 (case get_template m nm' (owner_id template) hid of
                    Inl e \<Rightarrow> (Inl e, m)
                  | Inr (Some same_name_template) \<Rightarrow> (Inl (DuplicateName nm'), m)
                  | Inr None \<Rightarrow>
                      (case check_duplicate_template m template of
                         Some same_image_template \<Rightarrow>
                           (Inl (DuplicateTemplate (name (tlist m ! same_image_template))), m)
                       | None \<Rightarrow>
                           (case create_template template of
                              Inl e \<Rightarrow> (Inl e, m)
                            | Inr new_id \<Rightarrow>
                                (let template = template\<lparr>template_id := Some new_id\<rparr>;
                                     m1 = m\<lparr>tlist := tlist m @ [template]\<rparr>
                                 in case update_combo m1 st None None of
                                      (Inl e, m2) \<Rightarrow> (Inl e, m2)
                                    | (Inr c, m2) \<Rightarrow> (Inr (), m2)))))
           | (None, u) \<Rightarrow> (Inl AttributeError, m)
           | (Some su, None) \<Rightarrow>
               if startswith su ''data:image'' then (Inl base64_url, m) else (Inl TypeError, m)))"

text \<open>
  \<^verbatim>\<open>update_template\<close>. \<open>get_template_from_url\<close> (download and decoding of the new
  source) and \<open>db_update\<close> (\<^verbatim>\<open>db_templates.update_template\<close>) are parameters. The
  first helper is the branch \<^verbatim>\<open>if new_url:\<close>, the second the branch
  \<^verbatim>\<open>if new_name:\<close>. The reference found by name is the combo itself or a position of
  the list; \<^verbatim>\<open>isinstance(old_temp, Combo)\<close> holds for the former and is the flag
  \<open>is_combo\<close> for the latter. \<^verbatim>\<open>copy.deepcopy(old_temp)\<close> is the same record.
\<close>

definition no_template_named :: "string \<Rightarrow> error" where
  "no_template_named nm = ValueError (''No template named `'' @ nm @ ''` found.'')"

definition NoChange :: error where
  "NoChange = ValueError ''The new template has no changes (same image, coords, title, image link).''"

definition deref :: "manager \<Rightarrow> ref \<Rightarrow> template option" where
  "deref m r = (case r of Combo_ref \<Rightarrow> combo m | List_ref i \<Rightarrow> Some (tlist m ! i))"

definition update_from_url ::
  "manager \<Rightarrow> (string \<Rightarrow> error + template) \<Rightarrow> nat \<Rightarrow> template \<Rightarrow> string \<Rightarrow> error + template" where
  "update_from_url m get_template_from_url old_index old_temp new_url =
     (case get_template_from_url new_url of
        Inl e \<Rightarrow> Inl e
      | Inr new_temp \<Rightarrow>
          (case (stylized_url new_temp, url new_temp) of
             (Some su, Some u) \<Rightarrow>
               if startswith su ''data:image'' then Inl base64_url
               else if length u > 512 then Inl url_too_long
               else if total_placeable new_temp = Some 0
               then Inl (ValueError ''The template seems to be outside the canvas, make sure it's correctly positioned.'')
               else
                 (let adopted = new_temp\<lparr>name := name old_temp, owner_id := owner_id old_temp,
                                         hidden := hidden old_temp,
                                         template_id := template_id old_temp\<rparr>
                  in case check_duplicate_template m new_temp of
                       None \<Rightarrow> Inr adopted
                     | Some temp_same_image \<Rightarrow>
                         if temp_same_image = old_index
                         then (if title old_temp = title new_temp
                                  \<and> stylized_url old_temp = stylized_url new_temp
                               then Inl NoChange else Inr adopted)
                         else Inl (DuplicateTemplate (name (tlist m ! temp_same_image))))
           | (None, u) \<Rightarrow> Inl AttributeError
           | (Some su, None) \<Rightarrow>
               if startswith su ''data:image'' then Inl base64_url else Inl TypeError))"

definition update_name ::
  "manager \<Rightarrow> nat \<Rightarrow> template \<Rightarrow> string \<Rightarrow> error + template" where
  "update_name m old_index new_temp new_name =
     (case check_valid_name new_name of
        Inl e \<Rightarrow> Inl e
      | Inr new_name \<Rightarrow>
          (case get_template m new_name None False of
             Inl e \<Rightarrow> Inl e
           | Inr temp_with_same_name \<Rightarrow>
               if temp_with_same_name \<noteq> None \<and> temp_with_same_name \<noteq> Some (List_ref old_index)
               then Inl (DuplicateName new_name)
               else Inr (new_temp\<lparr>name := Some new_name\<rparr>)))"

definition update_template ::
  "manager \<Rightarrow> stats \<Rightarrow> (string \<Rightarrow> error + template)
     \<Rightarrow> (template \<Rightarrow> string option \<Rightarrow> string option \<Rightarrow> int option \<Rightarrow> error + int option)
     \<Rightarrow> string \<Rightarrow> int \<Rightarrow> string option \<Rightarrow> string option \<Rightarrow> int option
     \<Rightarrow> (error + template \<times> template) \<times> manager" where
  "update_template m st get_template_from_url db_update current_name command_user_id
     new_url new_name new_owner =
     (case get_template m current_name (Some command_user_id) False of
        Inl e \<Rightarrow> (Inl e, m)
      | Inr None \<Rightarrow> (Inl (no_template_named current_name), m)
      | Inr (Some r) \<Rightarrow>
          (case deref m r of
             None \<Rightarrow> (Inl (no_template_named current_name), m)
           | Some old_temp \<Rightarrow>
               if owner_id old_temp \<noteq> Some command_user_id
                  \<and> command_user_id \<notin> set (progress_admins m)
               then (Inl (ValueError ''You cannot edit a template that you don't own.''), m)
               else
                 (case r of
                    Combo_ref \<Rightarrow> (Inl (ValueError ''You cannot edit the combo.''), m)
                  | List_ref old_temp_index \<Rightarrow>
                      if is_combo old_temp
                      then (Inl (ValueError ''You cannot edit the combo.''), m)
                      else
                        (case (if truthy_str new_url
                               then update_from_url m get_template_from_url old_temp_index
                                      old_temp (case new_url of None \<Rightarrow> [] | Some u \<Rightarrow> u)
                               else Inr old_temp) of
                           Inl e \<Rightarrow> (Inl e, m)
                         | Inr new_temp \<Rightarrow>
                             (case (if truthy_str new_name
                                    then update_name m old_temp_index new_temp
                                           (case new_name of None \<Rightarrow> [] | Some n \<Rightarrow> n)
                                    else Inr new_temp) of
                                Inl e \<Rightarrow> (Inl e, m)
                              | Inr new_temp \<Rightarrow>
                                  (let new_temp = (case new_owner of
                                                     None \<Rightarrow> new_temp
                                                   | Some new_owner_id \<Rightarrow>
                                                       new_temp\<lparr>owner_id := Some new_owner_id\<rparr>);
                                       new_temp = new_temp\<lparr>hidden := Some False\<rparr>
                                   in case db_update old_temp (url new_temp) (name new_temp)
                                             (owner_id new_temp) of
                                        Inl IntegrityError \<Rightarrow>
                                          (Inl (ValueError ''You cannot transfer the ownership to a user that has never used the bot.''), m)
                                      | Inl e \<Rightarrow> (Inl e, m)
                                      | Inr temp_id \<Rightarrow>
                                          if \<not> truthy_int temp_id
                                          then (Inl (ValueError ''There was an error while updating the template.''), m)
                                          else
                                            (let m1 = m\<lparr>tlist := (tlist m)[old_temp_index := new_temp]\<rparr>
                                             in case update_combo m1 st None None of
                                                  (Inl e, m2) \<Rightarrow> (Inl e, m2)
                                                | (Inr c, m2) \<Rightarrow> (Inr (old_temp, new_temp), m2))))))))"

section \<open>Notions used to state the properties\<close>





text \<open>
  The to-go mask of a template, placeable and not placed, for two masks of the same
  shape; the chunk \<open>(a, c)\<close> of a mask for a chunk size \<open>cs\<close>, which is false beyond the
  mask; and the number of true cells of that chunk.
\<close>

definition togo :: "bool ndarray \<Rightarrow> bool ndarray \<Rightarrow> bool ndarray" where
  "togo placed placeable =
     \<lparr>shape0 = shape0 placeable, shape1 = shape1 placeable,
      item = (\<lambda>y x. \<not> item placed y x \<and> item placeable y x)\<rparr>"

definition chunk :: "bool ndarray \<Rightarrow> nat \<Rightarrow> nat \<Rightarrow> nat \<Rightarrow> bool ndarray" where
  "chunk m cs a c =
     \<lparr>shape0 = cs, shape1 = cs,
      item = (\<lambda>b d. a * cs + b < shape0 m \<and> c * cs + d < shape1 m
                     \<and> item m (a * cs + b) (c * cs + d))\<rparr>"

definition chunk_count :: "bool ndarray \<Rightarrow> nat \<Rightarrow> nat \<Rightarrow> nat \<Rightarrow> nat" where
  "chunk_count m cs a c = count_true (chunk m cs a c)"

text \<open>
  The scope in which a saved template must be unique: the public templates for a
  public one, the hidden templates of the same owner for a hidden one. A name is taken
  when a tracked template of the scope bears it, letter case apart; an image is taken
  when a tracked template of the scope has the same grid at the same origin.
\<close>

definition in_scope :: "template \<Rightarrow> int \<Rightarrow> bool \<Rightarrow> bool" where
  "in_scope t owner hid =
     (if hid then truthy (hidden t) \<and> owner_id t = Some owner else \<not> truthy (hidden t))"

definition name_taken :: "manager \<Rightarrow> string \<Rightarrow> int \<Rightarrow> bool \<Rightarrow> bool" where
  "name_taken m nm owner hid =
     (\<exists>t \<in> set (tlist m). in_scope t owner hid
        \<and> (case name t of None \<Rightarrow> False | Some n \<Rightarrow> lower n = lower nm))"

definition image_taken :: "manager \<Rightarrow> template \<Rightarrow> int \<Rightarrow> bool \<Rightarrow> bool" where
  "image_taken m template owner hid =
     (\<exists>t \<in> set (tlist m). in_scope t owner hid
        \<and> array_equal (palettized_array template) (palettized_array t)
        \<and> oy template = oy t \<and> ox template = ox t)"

section \<open>Concrete inputs\<close>

text \<open>\<^verbatim>\<open>np.array(rows)\<close> for a list of rows of equal length.\<close>

definition from_rows :: "'a \<Rightarrow> 'a list list \<Rightarrow> 'a ndarray" where
  "from_rows d rows =
     \<lparr>shape0 = length rows, shape1 = (case rows of [] \<Rightarrow> 0 | r # rs \<Rightarrow> length r),
      item = (\<lambda>y x. if y < length rows \<and> x < length (rows ! y) then rows ! y ! x else d)\<rparr>"

text \<open>A template object with the given grid and origin, built without any canvas.\<close>

definition bare_template :: "pix ndarray \<Rightarrow> int \<Rightarrow> int \<Rightarrow> template" where
  "bare_template arr x y =
     \<lparr>url = Some ''https://pxls.space/#template=t.png&tw=2&ox=0&oy=0'',
      stylized_url = Some ''t.png'', title = None, ox = x, oy = y,
      canvas_code = ''70'', owner_id = None, hidden = None, name = None,
      template_id = None, palettized_array = arr,
      width = shape1 arr, height = shape0 arr,
      total_size = int (count_true (not_transparent arr)),
      placeable_mask = None, total_placeable = None,
      placed_mask = None, current_progress = None, is_combo = False\<rparr>"

text \<open>A 5 x 5 opaque image, decoded with a true width of 2.\<close>

definition image5 :: "rgba ndarray" where
  "image5 = full 5 5 (10, 20, 30, 255)"

text \<open>
  A template with 150 placeable pixels, 100 of them placed, whose history lost 168
  pixels over the last 168 hours.
\<close>

definition eta_template :: template where
  "eta_template = (bare_template (full 10 15 3) 0 0)
     \<lparr>total_placeable := Some 150, current_progress := Some 100\<rparr>"


definition flat_history :: history where
  "flat_history dt =
     (if dt = 0 then Some (0, 100) else if dt = 168 * hour then Some (168 * hour, 100) else None)"



definition hours_format :: "rat \<Rightarrow> string" where
  "hours_format h = (if h < 24 then ''hours'' else ''days'')"

text \<open>
  A 10 x 10 canvas where every cell is placeable, and a 2 x 2 template placed five
  columns to the left of it, and the same template placed just right of its last column.
\<close>

definition canvas10 :: "pix ndarray" where
  "canvas10 = full 10 10 0"

definition stats10 :: stats where
  "stats10 = \<lparr>board_array = canvas10, placemap_array = canvas10, virginmap_array = canvas10\<rparr>"

definition grid22 :: "pix ndarray" where
  "grid22 = from_rows 255 [[1, 2], [255, 4]]"

definition left_template :: template where
  "left_template = bare_template grid22 (- 5) 0"

definition right_template :: template where
  "right_template = bare_template grid22 10 0"

text \<open>The 2 x 2 template at the origin of the canvas, with its placeable mask.\<close>

definition tracked_template :: template where
  "tracked_template = (bare_template grid22 0 0)
     \<lparr>placeable_mask := Some (not_transparent grid22), total_placeable := Some 3\<rparr>"





text \<open>
  The 2 x 2 template at the origin \<open>(3, 5)\<close> whose first row is placed: of its three
  placeable cells only the cell \<open>(1, 1)\<close> is still to go.
\<close>

definition hot_placed :: "bool ndarray" where
  "hot_placed = from_rows False [[True, True], [False, False]]"

definition hot_template :: template where
  "hot_template = (bare_template grid22 3 5)
     \<lparr>placeable_mask := Some (not_transparent grid22), total_placeable := Some 3,
      placed_mask := Some hot_placed, current_progress := Some 2\<rparr>"

text \<open>
  A registry that tracks the public template \<open>flag\<close> of the user 7, with its combo; a
  new template with the same name and another grid, and one with another name and the
  same grid at the same origin; a storage that accepts every record, and a download
  that always fails.
\<close>

definition flag_template :: template where
  "flag_template = tracked_template
     \<lparr>owner_id := Some 7, hidden := Some False, name := Some ''flag'', template_id := Some 1\<rparr>"

definition combo10 :: template where
  "combo10 = Combo_init ''@clueless-combo'' (full 10 10 255) 0 0 ''@combo'' 1 ''70''"

definition registry :: manager where
  "registry = \<lparr>tlist = [flag_template], progress_admins = [], combo = Some combo10,
                is_loading = False\<rparr>"

definition same_name_template :: template where
  "same_name_template = bare_template (from_rows 255 [[9]]) 4 4"

definition same_image_template :: template where
  "same_image_template = bare_template grid22 0 0"

definition storage_create :: "template \<Rightarrow> error + int" where
  "storage_create t = Inr 2"

definition storage_update ::
  "template \<Rightarrow> string option \<Rightarrow> string option \<Rightarrow> int option \<Rightarrow> error + int option" where
  "storage_update t u n ow = Inr (Some 1)"

definition failing_download :: "string \<Rightarrow> error + template" where
  "failing_download u = Inl (ValueError ''Couldn't download the template image.'')"

section \<open>Properties of the decoder\<close>

text \<open>
  C4. When the inferred block size (image width divided by the target width) is 1,
  \<open>detemplatize\<close> returns its input image unchanged.
\<close>

theorem detemplatize_block_size_one:
  "int (shape1 img_raw) div true_width = 1 \<Longrightarrow> detemplatize img_raw true_width = Inr img_raw"
  by (simp add: detemplatize_def)

theorem detemplatize_block_size_one_witness:
  "int (shape1 \<lparr>shape0 = 2, shape1 = 3, item = (\<lambda>y x. (1, 2, 3, 200))\<rparr>) div 2 = 1
   \<and> detemplatize \<lparr>shape0 = 2, shape1 = 3, item = (\<lambda>y x. (1, 2, 3, 200))\<rparr> 2
       = Inr \<lparr>shape0 = 2, shape1 = 3, item = (\<lambda>y x. (1, 2, 3, 200))\<rparr>"
  using detemplatize_block_size_one
    [of "\<lparr>shape0 = 2, shape1 = 3, item = (\<lambda>y x. (1, 2, 3, 200))\<rparr>" 2]
  by simp

text \<open>
  C3 (as amended). \<open>detemplatize\<close> makes no divisibility check. For a true width between
  1 and the image width, with a block size other than 1, it returns the grid of
  \<open>fast_detemplatize\<close> with \<open>height div block_size\<close> rows, whether or not the block
  size divides the width and the height of the image.
\<close>

theorem detemplatize_returns_grid:
  "0 < true_width \<Longrightarrow> true_width \<le> int (shape1 img_raw)
   \<Longrightarrow> int (shape1 img_raw) div true_width \<noteq> 1
   \<Longrightarrow> detemplatize img_raw true_width =
         Inr (fast_detemplatize img_raw (shape0 img_raw div (shape1 img_raw div nat true_width))
                (nat true_width) (shape1 img_raw div nat true_width))"
proof -
  assume pos: "0 < true_width" and fits: "true_width \<le> int (shape1 img_raw)"
    and not_one: "int (shape1 img_raw) div true_width \<noteq> 1"
  from pos fits have "0 < int (shape1 img_raw) div true_width"
    by (simp add: pos_imp_zdiv_pos_iff)
  then have block: "int (shape1 img_raw) div true_width \<noteq> 0"
    by simp
  from pos have size: "nat (int (shape1 img_raw) div true_width) = shape1 img_raw div nat true_width"
    by (simp add: nat_div_distrib)
  from pos have rows: "nat (int (shape0 img_raw) div (int (shape1 img_raw) div true_width))
      = shape0 img_raw div (shape1 img_raw div nat true_width)"
    by (simp add: nat_div_distrib zdiv_int)
  show ?thesis
    using pos not_one block size rows by (simp add: detemplatize_def Let_def)
qed

theorem detemplatize_returns_grid_witness:
  "(0::int) < 2 \<and> 2 \<le> int (shape1 image5) \<and> int (shape1 image5) div 2 \<noteq> 1
   \<and> detemplatize image5 2 = Inr (fast_detemplatize image5 2 2 2)"
  using detemplatize_returns_grid [of 2 image5]
  by (simp add: image5_def full_def)

text \<open>
  C3 (as stated) fails: the 5 x 5 image with true width 2 has block size 2, which
  divides neither 5 nor 5, and \<open>detemplatize\<close> returns a 2 x 2 grid.
\<close>

theorem detemplatize_indivisible_counterexample:
  "int (shape1 image5) div 2 = 2 \<and> shape1 image5 mod 2 \<noteq> 0 \<and> shape0 image5 mod 2 \<noteq> 0
   \<and> detemplatize image5 2 = Inr (fast_detemplatize image5 2 2 2)"
  by (simp add: detemplatize_def image5_def full_def)

section \<open>Properties of the ETA estimator\<close>




text \<open>
  C6. With both samples present at distinct times and equal progress, and a remaining
  work that is not zero, \<open>get_eta\<close> returns the result of a zero speed: the string
  \<^verbatim>\<open>Never\<close> (with its trade mark sign), or \<^verbatim>\<open>None\<close>, together with the speed 0. It
  differs from a numeric ETA and from the result \<open>(None, None)\<close> of missing data.
\<close>

theorem get_eta_speed_zero:
  assumes "db (now - 7 * 24 * hour) = Some (old_datetime, progress)"
    and "db now = Some (now_datetime, progress)"
    and "now_datetime \<noteq> old_datetime"
    and "total_placeable t = Some tp" and "current_progress t = Some cp"
    and "tp - cp \<noteq> 0"
  shows "get_eta t db td_format now as_string =
           Inr (if as_string then PyStr never_string else PyNone, Some 0)"
  using assms by (simp add: get_eta_def get_progress_at_def Let_def)

theorem get_eta_speed_zero_witness:
  "flat_history (168 * hour - 7 * 24 * hour) = Some (0, 100)
   \<and> flat_history (168 * hour) = Some (168 * hour, 100)
   \<and> 168 * hour \<noteq> 0
   \<and> total_placeable eta_template = Some 150 \<and> current_progress eta_template = Some 100
   \<and> (150::int) - 100 \<noteq> 0
   \<and> get_eta eta_template flat_history hours_format (168 * hour) True =
        Inr (PyStr never_string, Some 0)"
  using get_eta_speed_zero
    [of flat_history "168 * hour" 0 100 "168 * hour" eta_template 150 100 hours_format True]
  by (simp add: flat_history_def eta_template_def bare_template_def hour_def)

section \<open>Properties of the template entity\<close>

text \<open>
  C2. \<open>crop_to_canvas\<close> does not raise for every placement without overlap. A 2 x 2
  template at \<open>ox = -5\<close> lies left of the canvas, and one at \<open>ox = 10\<close> starts right of
  the last column of the 10 x 10 canvas; neither overlaps the canvas, and for both
  \<open>crop_to_canvas\<close> returns an array without columns instead of the error.
\<close>

theorem crop_to_canvas_outside_not_raised:
  "\<not> overlaps_canvas left_template canvas10
   \<and> crop_to_canvas left_template canvas10 =
        Inr (slice2 (slice2 grid22 0 2 5 2) 0 2 0 0, 0, 0)
   \<and> shape1 (slice2 (slice2 grid22 0 2 5 2) 0 2 0 0) = 0
   \<and> \<not> overlaps_canvas right_template canvas10
   \<and> crop_to_canvas right_template canvas10 =
        Inr (slice2 (slice2 grid22 0 2 0 2) 0 2 0 0, 10, 0)
   \<and> shape1 (slice2 (slice2 grid22 0 2 0 2) 0 2 0 0) = 0"
proof -
  have grid: "shape0 grid22 = 2" "shape1 grid22 = 2"
    by (simp_all add: grid22_def from_rows_def)
  have left: "shape0 (slice2 grid22 0 2 5 2) = 2" "shape1 (slice2 grid22 0 2 5 2) = 0"
    by (simp_all add: slice2_def slice_index_def grid)
  have right: "shape0 (slice2 grid22 0 2 0 2) = 2" "shape1 (slice2 grid22 0 2 0 2) = 2"
    by (simp_all add: slice2_def slice_index_def grid)
  have empty: "shape1 (slice2 (slice2 grid22 0 2 5 2) 0 2 0 0) = 0"
    "shape1 (slice2 (slice2 grid22 0 2 0 2) 0 2 0 0) = 0"
    by (simp_all add: slice2_def slice_index_def)
  have canvas: "shape0 canvas10 = 10" "shape1 canvas10 = 10"
    by (simp_all add: canvas10_def full_def)
  have l: "crop_to_canvas left_template canvas10 =
        Inr (slice2 (slice2 grid22 0 2 5 2) 0 2 0 0, 0, 0)"
    by (simp add: crop_to_canvas_def left_template_def bare_template_def grid left canvas)
  have r: "crop_to_canvas right_template canvas10 =
        Inr (slice2 (slice2 grid22 0 2 0 2) 0 2 0 0, 10, 0)"
    by (simp add: crop_to_canvas_def right_template_def bare_template_def grid right canvas)
  have nl: "\<not> overlaps_canvas left_template canvas10"
    by (simp add: overlaps_canvas_def left_template_def bare_template_def grid canvas)
  have nr: "\<not> overlaps_canvas right_template canvas10"
    by (simp add: overlaps_canvas_def right_template_def bare_template_def grid canvas)
  show ?thesis
    using l r nl nr empty by simp
qed

lemma crop_axis_lengths:
  fixes origin :: int and n h :: nat
  defines "lo \<equiv> min (max 0 origin) (int n)"
    and "hi \<equiv> max 0 (min (int n) (origin + int h))"
  shows "slice_index n hi - slice_index n lo = slice_index h (hi - origin) - slice_index h (lo - origin)"
proof -
  have bounds: "0 \<le> hi" "hi \<le> int n" "0 \<le> lo" "lo \<le> int n"
    by (simp_all add: lo_def hi_def)
  consider (right) "int n < origin" | (inside) "0 \<le> origin" "origin \<le> int n"
    | (left_out) "origin < 0" "origin + int h \<le> 0" | (left_in) "origin < 0" "0 < origin + int h"
    by linarith
  then show ?thesis
  proof cases
    case right
    then have "lo = int n" "hi = int n"
      by (simp_all add: lo_def hi_def)
    with right show ?thesis
      by (simp add: slice_index_def)
  next
    case inside
    then have lo: "lo = origin" and hi: "hi = min (int n) (origin + int h)"
      by (simp_all add: lo_def hi_def)
    have "origin \<le> hi" "hi - origin \<le> int h"
      using inside by (simp_all add: hi)
    then have "slice_index n hi = nat hi" "slice_index n lo = nat origin"
      "slice_index h (hi - origin) = nat (hi - origin)" "slice_index h (lo - origin) = 0"
      using inside bounds(1,2) by (simp_all add: slice_index_def lo)
    moreover have "nat hi - nat origin = nat (hi - origin)"
      using inside \<open>origin \<le> hi\<close> by linarith
    ultimately show ?thesis
      by simp
  next
    case left_out
    then have "lo = 0" "hi = 0"
      by (simp_all add: lo_def hi_def)
    then show ?thesis
      by simp
  next
    case left_in
    then have lo: "lo = 0" and hi: "hi = min (int n) (origin + int h)"
      by (simp_all add: lo_def hi_def)
    have "hi - origin \<le> int h" "- origin \<le> int h"
      using left_in by (simp_all add: hi)
    then have "slice_index n hi = nat hi" "slice_index n lo = 0"
      "slice_index h (hi - origin) = nat (hi - origin)" "slice_index h (lo - origin) = nat (- origin)"
      using left_in bounds(1,2) by (simp_all add: slice_index_def lo)
    moreover have "nat (hi - origin) - nat (- origin) = nat hi"
      using left_in bounds(1) by linarith
    ultimately show ?thesis
      by simp
  qed
qed

lemma crop_array_to_template_shape:
  assumes "height t = shape0 (palettized_array t)" and "width t = shape1 (palettized_array t)"
  shows "\<exists>c. crop_array_to_template t array = Inr c
            \<and> shape0 c = shape0 (palettized_array t) \<and> shape1 c = shape1 (palettized_array t)"
proof -
  have rows: "broadcasts_to
      (slice_index (shape0 array) (max 0 (min (int (shape0 array)) (oy t + int (height t))))
        - slice_index (shape0 array) (min (max 0 (oy t)) (int (shape0 array))))
      (slice_index (shape0 (palettized_array t))
          (max 0 (min (int (shape0 array)) (oy t + int (height t))) - oy t)
        - slice_index (shape0 (palettized_array t))
            (min (max 0 (oy t)) (int (shape0 array)) - oy t))"
    unfolding broadcasts_to_def assms(1) by (rule disjI1) (rule crop_axis_lengths)
  have cols: "broadcasts_to
      (slice_index (shape1 array) (max 0 (min (int (shape1 array)) (ox t + int (width t))))
        - slice_index (shape1 array) (min (max 0 (ox t)) (int (shape1 array))))
      (slice_index (shape1 (palettized_array t))
          (max 0 (min (int (shape1 array)) (ox t + int (width t))) - ox t)
        - slice_index (shape1 (palettized_array t))
            (min (max 0 (ox t)) (int (shape1 array)) - ox t))"
    unfolding broadcasts_to_def assms(2) by (rule disjI1) (rule crop_axis_lengths)
  have "\<exists>f. crop_array_to_template t array =
          Inr (full (shape0 (palettized_array t)) (shape1 (palettized_array t)) 255
                 \<lparr>item := f\<rparr>)"
    unfolding crop_array_to_template_def assign_slice_def Let_def slice2_def full_like_def
    by (simp only: rows cols ndarray.simps full_def simp_thms if_True) blast
  then obtain f where "crop_array_to_template t array =
      Inr (full (shape0 (palettized_array t)) (shape1 (palettized_array t)) 255
             \<lparr>item := f\<rparr>)"
    by blast
  then show ?thesis
    by (simp add: full_def)
qed

lemma count_true_mono:
  assumes "same_shape a b" and "\<And>y x. item a y x \<Longrightarrow> item b y x"
  shows "count_true a \<le> count_true b"
proof -
  have row: "(\<Sum>x \<leftarrow> [0..<shape1 a]. if item a y x then 1 else 0)
        \<le> (\<Sum>x \<leftarrow> [0..<shape1 a]. if item b y x then 1 else (0::nat))" for y
    by (rule sum_list_mono) (simp add: assms(2))
  have "(\<Sum>y \<leftarrow> [0..<shape0 a]. \<Sum>x \<leftarrow> [0..<shape1 a]. if item a y x then 1 else 0)
        \<le> (\<Sum>y \<leftarrow> [0..<shape0 a]. \<Sum>x \<leftarrow> [0..<shape1 a]. if item b y x then 1 else (0::nat))"
    by (rule sum_list_mono) (rule row)
  then show ?thesis
    using assms(1) by (simp add: count_true_def same_shape_def)
qed

lemma make_placeable_mask_shape:
  assumes "height t = shape0 (palettized_array t)" and "width t = shape1 (palettized_array t)"
  shows "\<exists>pm. make_placeable_mask t st = Inr pm \<and> same_shape pm (palettized_array t)"
  using crop_array_to_template_shape [OF assms, of "placemap_array st"]
  by (auto simp: make_placeable_mask_def same_shape_def)

lemma make_placed_mask_subset:
  assumes "placeable_mask t = Some pm" and "same_shape pm (palettized_array t)"
    and "height t = shape0 (palettized_array t)" and "width t = shape1 (palettized_array t)"
  shows "\<exists>placed. make_placed_mask t board = Inr placed \<and> same_shape placed pm
            \<and> (\<forall>y x. item placed y x \<longrightarrow> item pm y x)"
  using crop_array_to_template_shape [OF assms(3,4), of board] assms(1,2)
  by (auto simp: make_placed_mask_def same_shape_def)

lemma Template_init_invariant:
  "\<exists>t pm. Template_init u su ti arr x y code st = Inr t
     \<and> placeable_mask t = Some pm \<and> same_shape pm (palettized_array t)
     \<and> height t = shape0 (palettized_array t) \<and> width t = shape1 (palettized_array t)
     \<and> total_placeable t = Some (int (count_true pm))"
proof -
  let ?t0 = "\<lparr>url = Some u, stylized_url = Some su, title = ti, ox = x, oy = y,
                canvas_code = code, owner_id = None, hidden = None, name = None,
                template_id = None, palettized_array = arr,
                width = shape1 arr, height = shape0 arr,
                total_size = int (count_true (not_transparent arr)),
                placeable_mask = None, total_placeable = None,
                placed_mask = None, current_progress = None, is_combo = False\<rparr>"
  obtain pm where "make_placeable_mask ?t0 st = Inr pm" "same_shape pm (palettized_array ?t0)"
    using make_placeable_mask_shape [of ?t0 st] by auto
  then show ?thesis
    by (simp add: Template_init_def same_shape_def)
qed

text \<open>
  C1. For a template whose stored placeable mask has the shape of its grid and whose
  \<open>total_placeable\<close> counts that mask (as the constructor and \<open>update_combo\<close> leave it),
  and for every board: \<open>make_placed_mask\<close> returns a mask that is a subset of the
  placeable mask, and \<open>update_progress\<close> returns its count, which lies between 0 and
  \<open>total_placeable\<close>.
\<close>

theorem placed_mask_subset_placeable:
  assumes "placeable_mask t = Some pm" and "same_shape pm (palettized_array t)"
    and "height t = shape0 (palettized_array t)" and "width t = shape1 (palettized_array t)"
    and "total_placeable t = Some tp" and "tp = int (count_true pm)"
  shows "\<exists>placed progress t'.
           make_placed_mask t board = Inr placed
           \<and> same_shape placed pm \<and> (\<forall>y x. item placed y x \<longrightarrow> item pm y x)
           \<and> update_progress t board = Inr (progress, t')
           \<and> placed_mask t' = Some placed \<and> current_progress t' = Some progress
           \<and> progress = int (count_true placed)
           \<and> 0 \<le> progress \<and> progress \<le> tp"
proof -
  obtain placed where placed: "make_placed_mask t board = Inr placed" "same_shape placed pm"
    "\<forall>y x. item placed y x \<longrightarrow> item pm y x"
    using make_placed_mask_subset [OF assms(1-4)] by blast
  have "count_true placed \<le> count_true pm"
    using placed(2,3) by (intro count_true_mono) auto
  then show ?thesis
    using placed assms(6) by (simp add: update_progress_def)
qed

theorem placed_mask_subset_placeable_witness:
  "placeable_mask tracked_template = Some (not_transparent grid22)
   \<and> same_shape (not_transparent grid22) (palettized_array tracked_template)
   \<and> height tracked_template = shape0 (palettized_array tracked_template)
   \<and> width tracked_template = shape1 (palettized_array tracked_template)
   \<and> total_placeable tracked_template = Some 3
   \<and> 3 = int (count_true (not_transparent grid22))
   \<and> (\<exists>placed progress t'.
           make_placed_mask tracked_template canvas10 = Inr placed
           \<and> same_shape placed (not_transparent grid22)
           \<and> (\<forall>y x. item placed y x \<longrightarrow> item (not_transparent grid22) y x)
           \<and> update_progress tracked_template canvas10 = Inr (progress, t')
           \<and> placed_mask t' = Some placed \<and> current_progress t' = Some progress
           \<and> progress = int (count_true placed)
           \<and> 0 \<le> progress \<and> progress \<le> 3)"
proof -
  have shape: "shape0 grid22 = 2" "shape1 grid22 = 2"
    by (simp_all add: grid22_def from_rows_def)
  have count: "3 = int (count_true (not_transparent grid22))"
    by (simp add: count_true_def not_transparent_def grid22_def from_rows_def upt_rec)
  have hyps: "placeable_mask tracked_template = Some (not_transparent grid22)"
    "same_shape (not_transparent grid22) (palettized_array tracked_template)"
    "height tracked_template = shape0 (palettized_array tracked_template)"
    "width tracked_template = shape1 (palettized_array tracked_template)"
    "total_placeable tracked_template = Some 3"
    by (simp_all add: tracked_template_def bare_template_def same_shape_def not_transparent_def)
  show ?thesis
    using placed_mask_subset_placeable [OF hyps count, of canvas10] hyps count
    by simp
qed

section \<open>Properties of the compositor\<close>






















section \<open>Properties of the hot-cell locator\<close>

lemma padded_length:
  fixes h cs :: nat
  assumes "0 < cs"
  shows "(h + (cs - h mod cs)) mod cs = 0" and "(h + (cs - h mod cs)) div cs = h div cs + 1"
proof -
  have less: "h mod cs < cs"
    using assms by simp
  have split: "h = cs * (h div cs) + h mod cs"
    by simp
  have "h + (cs - h mod cs) = cs * (h div cs) + cs"
    using less split by linarith
  then have "h + (cs - h mod cs) = (h div cs + 1) * cs"
    by (simp add: algebra_simps)
  then show "(h + (cs - h mod cs)) mod cs = 0" "(h + (cs - h mod cs)) div cs = h div cs + 1"
    using assms by simp_all
qed

text \<open>A table laid out row by row: its length and its entries.\<close>

lemma length_row_major:
  "length (concat (map (\<lambda>a. map (f a) [0..<nc]) [0..<nr])) = nr * nc"
  by (induction nr) simp_all

lemma nth_row_major:
  assumes "k < nr * nc"
  shows "concat (map (\<lambda>a. map (f a) [0..<nc]) [0..<nr]) ! k = f (k div nc) (k mod nc)"
  using assms
proof (induction nr)
  case 0
  then show ?case by simp
next
  case (Suc nr)
  show ?case
  proof (cases "k < nr * nc")
    case True
    then show ?thesis
      using Suc.IH by (simp add: nth_append length_row_major)
  next
    case False
    then have k: "nr * nc \<le> k" "k - nr * nc < nc"
      using Suc.prems by simp_all
    then obtain r where r: "k = nr * nc + r" "r < nc"
      by (metis le_add_diff_inverse)
    then have "k div nc = nr" "k mod nc = r"
      by simp_all
    then show ?thesis
      using False r by (simp add: nth_append length_row_major)
  qed
qed

text \<open>
  The loop of \<open>fast_max_chunk\<close>: it keeps its index when no chunk exceeds the running
  maximum, and otherwise ends on the first chunk that holds the largest count.
\<close>

lemma fast_max_chunk_loop_keeps:
  "\<forall>k < length chunks. count_true (chunks ! k) \<le> chunk_pixels
   \<Longrightarrow> fast_max_chunk_loop max_index chunk_pixels i chunks = max_index"
proof (induction chunks arbitrary: i)
  case Nil
  then show ?case by simp
next
  case (Cons chunk rest)
  from Cons.prems have "count_true chunk \<le> chunk_pixels"
    by force
  moreover from Cons.prems have "\<forall>k < length rest. count_true (rest ! k) \<le> chunk_pixels"
    by force
  ultimately show ?case
    using Cons.IH by (simp add: Let_def)
qed

lemma fast_max_chunk_loop_finds:
  "\<exists>k < length chunks. chunk_pixels < count_true (chunks ! k)
   \<Longrightarrow> \<exists>k < length chunks.
         fast_max_chunk_loop max_index chunk_pixels i chunks = int (i + k)
         \<and> chunk_pixels < count_true (chunks ! k)
         \<and> (\<forall>k' < length chunks. count_true (chunks ! k') \<le> count_true (chunks ! k))
         \<and> (\<forall>k' < k. count_true (chunks ! k') < count_true (chunks ! k))"
proof (induction chunks arbitrary: max_index chunk_pixels i)
  case Nil
  then show ?case by simp
next
  case (Cons chunk rest)
  let ?n = "count_true chunk"
  show ?case
  proof (cases "chunk_pixels < ?n")
    case True
    then have step: "fast_max_chunk_loop max_index chunk_pixels i (chunk # rest)
                       = fast_max_chunk_loop (int i) ?n (Suc i) rest"
      by (simp add: Let_def)
    show ?thesis
    proof (cases "\<exists>k < length rest. ?n < count_true (rest ! k)")
      case False
      then have le: "\<forall>k < length rest. count_true (rest ! k) \<le> ?n"
        by (meson not_less)
      then have "fast_max_chunk_loop (int i) ?n (Suc i) rest = int i"
        by (rule fast_max_chunk_loop_keeps)
      moreover have "\<forall>k' < length (chunk # rest).
          count_true ((chunk # rest) ! k') \<le> count_true ((chunk # rest) ! 0)"
        using le by (simp add: nth_Cons split: nat.split)
      ultimately show ?thesis
        using True step by (intro exI [of _ 0]) simp
    next
      case inner: True
      from Cons.IH [OF inner, of "int i" "Suc i"]
      obtain k where k: "k < length rest"
        "fast_max_chunk_loop (int i) ?n (Suc i) rest = int (Suc i + k)"
        "?n < count_true (rest ! k)"
        "\<forall>k' < length rest. count_true (rest ! k') \<le> count_true (rest ! k)"
        "\<forall>k' < k. count_true (rest ! k') < count_true (rest ! k)"
        by blast
      have "\<forall>k' < length (chunk # rest).
          count_true ((chunk # rest) ! k') \<le> count_true ((chunk # rest) ! Suc k)"
        using k(3,4) by (simp add: nth_Cons split: nat.split)
      moreover have "\<forall>k' < Suc k.
          count_true ((chunk # rest) ! k') < count_true ((chunk # rest) ! Suc k)"
        using k(3,5) by (simp add: nth_Cons split: nat.split)
      ultimately show ?thesis
        using True step k(1,2,3) by (intro exI [of _ "Suc k"]) simp
    qed
  next
    case False
    then have step: "fast_max_chunk_loop max_index chunk_pixels i (chunk # rest)
                       = fast_max_chunk_loop max_index chunk_pixels (Suc i) rest"
      by (simp add: Let_def)
    from Cons.prems obtain k0 where k0: "k0 < length (chunk # rest)"
      "chunk_pixels < count_true ((chunk # rest) ! k0)"
      by blast
    with False obtain k1 where "k0 = Suc k1"
      by (cases k0) auto
    with k0 have inner: "\<exists>k < length rest. chunk_pixels < count_true (rest ! k)"
      by auto
    from Cons.IH [OF inner, of max_index "Suc i"]
    obtain k where k: "k < length rest"
      "fast_max_chunk_loop max_index chunk_pixels (Suc i) rest = int (Suc i + k)"
      "chunk_pixels < count_true (rest ! k)"
      "\<forall>k' < length rest. count_true (rest ! k') \<le> count_true (rest ! k)"
      "\<forall>k' < k. count_true (rest ! k') < count_true (rest ! k)"
      by blast
    have "?n < count_true (rest ! k)"
      using False k(3) by simp
    then have "\<forall>k' < length (chunk # rest).
        count_true ((chunk # rest) ! k') \<le> count_true ((chunk # rest) ! Suc k)"
      and "\<forall>k' < Suc k.
        count_true ((chunk # rest) ! k') < count_true ((chunk # rest) ! Suc k)"
      using k(4,5) by (simp_all add: nth_Cons split: nat.split)
    then show ?thesis
      using step k(1,2,3) by (intro exI [of _ "Suc k"]) simp
  qed
qed

lemma count_row_zero_iff:
  "(\<Sum>x \<leftarrow> xs. if P x then 1 else (0::nat)) = 0 \<longleftrightarrow> (\<forall>x \<in> set xs. \<not> P x)"
  by (induction xs) simp_all

lemma count_rows_zero_iff:
  "(\<Sum>y \<leftarrow> ys. \<Sum>x \<leftarrow> xs. if P y x then 1 else (0::nat)) = 0
   \<longleftrightarrow> (\<forall>y \<in> set ys. \<forall>x \<in> set xs. \<not> P y x)"
  by (induction ys) (simp_all add: count_row_zero_iff del: sum_list_eq_0_iff)

lemma count_true_zero_iff:
  "count_true m = 0 \<longleftrightarrow> (\<forall>y < shape0 m. \<forall>x < shape1 m. \<not> item m y x)"
  unfolding count_true_def count_rows_zero_iff by auto

lemma count_true_cong:
  assumes "shape0 a = shape0 b" and "shape1 a = shape1 b"
    and "\<And>y x. y < shape0 a \<Longrightarrow> x < shape1 a \<Longrightarrow> item a y x = item b y x"
  shows "count_true a = count_true b"
proof -
  have "(\<Sum>x \<leftarrow> [0..<shape1 a]. if item a y x then 1 else 0)
        = (\<Sum>x \<leftarrow> [0..<shape1 a]. if item b y x then 1 else (0::nat))"
    if "y < shape0 a" for y
    using that assms(3) by (intro arg_cong [where f = sum_list] map_cong) simp_all
  then have rows: "map (\<lambda>y. \<Sum>x \<leftarrow> [0..<shape1 a]. if item a y x then 1 else 0) [0..<shape0 a]
        = map (\<lambda>y. \<Sum>x \<leftarrow> [0..<shape1 a]. if item b y x then 1 else (0::nat)) [0..<shape0 a]"
    by (intro map_cong) simp_all
  show ?thesis
    unfolding count_true_def assms(1,2) [symmetric] by (simp only: rows)
qed

lemma logical_and_togo:
  assumes "same_shape placed placeable"
  shows "\<exists>togo_mask. logical_and (logical_not placed) placeable = Inr togo_mask
           \<and> shape0 togo_mask = shape0 placeable \<and> shape1 togo_mask = shape1 placeable
           \<and> (\<forall>y < shape0 placeable. \<forall>x < shape1 placeable.
                 item togo_mask y x = (\<not> item placed y x \<and> item placeable y x))"
  using assms
  by (simp add: logical_and_def logical_not_def broadcast_dim_def same_shape_def)

lemma chunk_count_cong:
  assumes "shape0 m = shape0 m'" and "shape1 m = shape1 m'"
    and "\<And>y x. y < shape0 m \<Longrightarrow> x < shape1 m \<Longrightarrow> item m y x = item m' y x"
  shows "chunk_count m cs a c = chunk_count m' cs a c"
  unfolding chunk_count_def
  by (rule count_true_cong) (auto simp: chunk_def assms)

text \<open>
  \<open>find_coords\<close> on a to-go mask: the padded mask has one more row and one more column
  of chunks than fit into the mask, and the chunks are laid out row by row.
\<close>

lemma find_coords_eq:
  fixes chunk_size :: int
  defines "cs \<equiv> nat chunk_size"
  assumes "placed_mask t = Some placed" and "placeable_mask t = Some placeable"
    and "logical_and (logical_not placed) placeable = Inr togo_mask"
    and "0 < chunk_size"
  defines "nr \<equiv> shape0 togo_mask div cs + 1" and "nc \<equiv> shape1 togo_mask div cs + 1"
  defines "chunks \<equiv> concat (map (\<lambda>a. map (\<lambda>c. chunk togo_mask cs a c) [0..<nc]) [0..<nr])"
  shows "find_coords t chunk_size =
     (if fast_max_chunk chunks = - 1 then Inr (None, None)
      else case coord_in_template (fast_max_chunk chunks div int nc) chunk_size of
             Inl e \<Rightarrow> Inl e
           | Inr row \<Rightarrow>
               (case coord_in_template (fast_max_chunk chunks mod int nc) chunk_size of
                  Inl e \<Rightarrow> Inl e
                | Inr col \<Rightarrow>
                    (case int64_add col (ox t) of
                       Inl e \<Rightarrow> Inl e
                     | Inr x \<Rightarrow>
                         (case int64_add row (oy t) of
                            Inl e \<Rightarrow> Inl e
                          | Inr y \<Rightarrow> Inr (Some x, Some y)))))"
proof -
  have cs: "0 < cs" "chunk_size \<noteq> 0" "\<not> chunk_size < 0"
    using assms(5) by (simp_all add: cs_def)
  let ?padded = "pad togo_mask (cs - shape0 togo_mask mod cs) (cs - shape1 togo_mask mod cs)"
  have shape: "shape0 ?padded mod cs = 0" "shape1 ?padded mod cs = 0"
    "shape0 ?padded div cs = nr" "shape1 ?padded div cs = nc"
    using padded_length [OF cs(1)] by (simp_all add: pad_def nr_def nc_def)
  have "to_chunks ?padded cs cs = Inr chunks"
    using cs(1) shape by (simp add: to_chunks_def chunks_def chunk_def pad_def)
  then show ?thesis
    using cs(2,3) shape(4)
    by (simp add: find_coords_def assms(2,3,4) Let_def cs_def [symmetric])
qed

text \<open>
  Inside the range of \<^verbatim>\<open>int64\<close> the arithmetic on chunk coordinates is exact: for a chunk
  coordinate \<open>a\<close> of an axis of length \<open>n\<close>, the centre of the chunk and its sum with the
  origin.
\<close>

lemma int64_wrap_id:
  assumes "- (2 ^ 63) \<le> v" and "v < 2 ^ 63"
  shows "int64_wrap v = v"
proof -
  have "0 \<le> v + 2 ^ 63" "v + 2 ^ 63 < 2 ^ 64"
    using assms by simp_all
  then have "(v + 2 ^ 63) mod 2 ^ 64 = v + 2 ^ 63"
    by (rule mod_pos_pos_trivial)
  then show ?thesis
    by (simp add: int64_wrap_def)
qed

lemma int64_add_exact:
  assumes "- (2 ^ 63) \<le> k" and "k < 2 ^ 63" and "- (2 ^ 63) \<le> c + k" and "c + k < 2 ^ 63"
  shows "int64_add c k = Inr (c + k)"
  using assms(1,2) int64_wrap_id [OF assms(3,4)] by (simp add: int64_add_def int64_operand_def)

lemma int64_mul_exact:
  assumes "- (2 ^ 63) \<le> k" and "k < 2 ^ 63" and "- (2 ^ 63) \<le> c * k" and "c * k < 2 ^ 63"
  shows "int64_mul c k = Inr (c * k)"
  using assms(1,2) int64_wrap_id [OF assms(3,4)] by (simp add: int64_mul_def int64_operand_def)

lemma chunk_centre_exact:
  fixes chunk_size origin :: int and a n :: nat
  assumes "0 < chunk_size" and "a \<le> n div nat chunk_size"
    and "int n + chunk_size < 2 ^ 63"
    and "- (2 ^ 63) \<le> origin" and "origin + int n + chunk_size < 2 ^ 63"
  shows "coord_in_template (int a) chunk_size = Inr (int a * chunk_size + chunk_size div 2)"
    and "int64_add (int a * chunk_size + chunk_size div 2) origin
           = Inr (int a * chunk_size + chunk_size div 2 + origin)"
proof -
  define scaled where "scaled = int a * chunk_size"
  define half where "half = chunk_size div 2"
  have "a * nat chunk_size \<le> n div nat chunk_size * nat chunk_size"
    using assms(2) by (rule mult_le_mono1)
  also have "\<dots> \<le> n"
    by simp
  finally have "a * nat chunk_size \<le> n" .
  then have le: "int (a * nat chunk_size) \<le> int n"
    by (simp only: of_nat_le_iff)
  have ge: "0 \<le> int (a * nat chunk_size)"
    by (rule of_nat_0_le_iff)
  have eq: "int (a * nat chunk_size) = scaled"
    using assms(1) by (simp add: scaled_def)
  have scaled: "0 \<le> scaled" "scaled \<le> int n"
    using ge le unfolding eq .
  have half: "0 \<le> half" "half \<le> chunk_size"
    using assms(1) by (simp_all add: half_def)
  have n: "0 \<le> int n"
    by simp
  have size: "- (2 ^ 63) \<le> chunk_size" "chunk_size < 2 ^ 63"
    using assms(1,3) n by linarith+
  have "- (2 ^ 63) \<le> scaled" "scaled < 2 ^ 63"
    using scaled assms(1,3) by linarith+
  then have mul: "int64_mul (int a) chunk_size = Inr scaled"
    unfolding scaled_def using size by (intro int64_mul_exact)
  have "- (2 ^ 63) \<le> half" "half < 2 ^ 63" "- (2 ^ 63) \<le> scaled + half" "scaled + half < 2 ^ 63"
    using scaled half assms(3) by linarith+
  then have add: "int64_add scaled half = Inr (scaled + half)"
    by (rule int64_add_exact)
  show "coord_in_template (int a) chunk_size = Inr (int a * chunk_size + chunk_size div 2)"
    using mul add by (simp add: coord_in_template_def scaled_def half_def)
  have "origin < 2 ^ 63" "- (2 ^ 63) \<le> scaled + half + origin" "scaled + half + origin < 2 ^ 63"
    using scaled half assms(1,4,5) by linarith+
  with assms(4) have "int64_add (scaled + half) origin = Inr (scaled + half + origin)"
    by (intro int64_add_exact)
  then show "int64_add (int a * chunk_size + chunk_size div 2) origin
           = Inr (int a * chunk_size + chunk_size div 2 + origin)"
    by (simp add: scaled_def half_def)
qed

lemma row_major_index:
  fixes a c nc :: nat
  assumes "c < nc"
  shows "(a * nc + c) div nc = a" and "(a * nc + c) mod nc = c"
  using assms by simp_all

lemma row_major_less:
  fixes a c a' c' nc nr :: nat
  assumes "a < nr" and "c < nc"
  shows "a * nc + c < nr * nc"
proof -
  have "a * nc + c < a * nc + nc"
    using assms(2) by simp
  also have "\<dots> = Suc a * nc"
    by simp
  also have "\<dots> \<le> nr * nc"
    using assms(1) by (intro mult_le_mono1) simp
  finally show ?thesis .
qed

lemma row_major_order:
  fixes a c a' c' nc :: nat
  assumes "c' < nc" and "a' < a \<or> (a' = a \<and> c' < c)"
  shows "a' * nc + c' < a * nc + c"
  using assms(2)
proof
  assume "a' < a"
  then have "a' * nc + c' < a * nc"
    using row_major_less [OF _ assms(1), of a' a] by simp
  then show ?thesis
    by simp
next
  assume "a' = a \<and> c' < c"
  then show ?thesis
    by simp
qed

lemma chunk_count_positive:
  "0 < chunk_count m cs a c \<longleftrightarrow>
     (\<exists>b < cs. \<exists>d < cs. a * cs + b < shape0 m \<and> c * cs + d < shape1 m
                        \<and> item m (a * cs + b) (c * cs + d))"
  using count_true_zero_iff [of "chunk m cs a c"]
  by (auto simp: chunk_count_def chunk_def)

text \<open>
  C8. For a template whose placed and placeable masks have the same shape and for a
  positive chunk size \<open>cs\<close>, the to-go mask is covered by \<open>nr\<close> rows and \<open>nc\<close> columns of
  chunks. Let the canvas coordinates of the padded template lie in the range of
  \<^verbatim>\<open>int64\<close>. When every chunk counts zero to-go cells, \<open>find_coords\<close> returns
  \<open>(None, None)\<close>. Otherwise it returns the centre \<open>(c * cs + cs div 2 + ox,
  a * cs + cs div 2 + oy)\<close> of a chunk \<open>(a, c)\<close> whose count is the largest and strictly
  larger than the count of every chunk before it in row-major order. When a single
  cell \<open>(y0, x0)\<close> is to go, that chunk is \<open>(y0 div cs, x0 div cs)\<close>.
\<close>

theorem find_coords_hot_chunk:
  fixes chunk_size :: int
  defines "cs \<equiv> nat chunk_size"
  assumes "placed_mask t = Some placed" and "placeable_mask t = Some placeable"
    and "same_shape placed placeable" and "0 < chunk_size"
  defines "m \<equiv> togo placed placeable"
  defines "nr \<equiv> shape0 m div cs + 1" and "nc \<equiv> shape1 m div cs + 1"
  assumes rows_fit: "int (shape0 m) + chunk_size < 2 ^ 63"
    "- (2 ^ 63) \<le> oy t" "oy t + int (shape0 m) + chunk_size < 2 ^ 63"
    and cols_fit: "int (shape1 m) + chunk_size < 2 ^ 63"
    "- (2 ^ 63) \<le> ox t" "ox t + int (shape1 m) + chunk_size < 2 ^ 63"
  shows "((\<forall>a < nr. \<forall>c < nc. chunk_count m cs a c = 0)
            \<longrightarrow> find_coords t chunk_size = Inr (None, None))
         \<and> ((\<exists>a < nr. \<exists>c < nc. chunk_count m cs a c \<noteq> 0)
            \<longrightarrow> (\<exists>a < nr. \<exists>c < nc.
                   find_coords t chunk_size =
                     Inr (Some (int c * chunk_size + chunk_size div 2 + ox t),
                          Some (int a * chunk_size + chunk_size div 2 + oy t))
                   \<and> (\<forall>a' < nr. \<forall>c' < nc. chunk_count m cs a' c' \<le> chunk_count m cs a c)
                   \<and> (\<forall>a' < nr. \<forall>c' < nc. a' < a \<or> (a' = a \<and> c' < c)
                          \<longrightarrow> chunk_count m cs a' c' < chunk_count m cs a c)))
         \<and> (\<forall>y0 < shape0 m. \<forall>x0 < shape1 m.
               (\<forall>y < shape0 m. \<forall>x < shape1 m. item m y x \<longleftrightarrow> y = y0 \<and> x = x0)
               \<longrightarrow> find_coords t chunk_size =
                     Inr (Some (int (x0 div cs) * chunk_size + chunk_size div 2 + ox t),
                          Some (int (y0 div cs) * chunk_size + chunk_size div 2 + oy t)))"
proof -
  have cs: "0 < cs"
    using assms(5) by (simp add: cs_def)
  have nc: "0 < nc"
    by (simp add: nc_def)
  obtain togo_mask where togo_mask:
    "logical_and (logical_not placed) placeable = Inr togo_mask"
    "shape0 togo_mask = shape0 m" "shape1 togo_mask = shape1 m"
    "\<And>y x. y < shape0 m \<Longrightarrow> x < shape1 m \<Longrightarrow> item togo_mask y x = item m y x"
    using logical_and_togo [OF assms(4)] by (auto simp: m_def togo_def)
  have counts: "chunk_count togo_mask cs a c = chunk_count m cs a c" for a c
    using togo_mask(2,3,4) by (intro chunk_count_cong) simp_all
  define chunks where
    "chunks = concat (map (\<lambda>a. map (\<lambda>c. chunk togo_mask cs a c) [0..<nc]) [0..<nr])"
  have len: "length chunks = nr * nc"
    by (simp add: chunks_def length_row_major)
  have nth: "count_true (chunks ! k) = chunk_count m cs (k div nc) (k mod nc)"
    if "k < nr * nc" for k
    using nth_row_major [OF that, of "\<lambda>a c. chunk togo_mask cs a c"] counts
    by (simp add: chunks_def chunk_count_def)
  have at: "count_true (chunks ! (a * nc + c)) = chunk_count m cs a c"
    if "a < nr" "c < nc" for a c
    using nth [OF row_major_less [OF that]] row_major_index [OF that(2), of a] by simp
  have coords: "find_coords t chunk_size =
     (if fast_max_chunk chunks = - 1 then Inr (None, None)
      else case coord_in_template (fast_max_chunk chunks div int nc) chunk_size of
             Inl e \<Rightarrow> Inl e
           | Inr row \<Rightarrow>
               (case coord_in_template (fast_max_chunk chunks mod int nc) chunk_size of
                  Inl e \<Rightarrow> Inl e
                | Inr col \<Rightarrow>
                    (case int64_add col (ox t) of
                       Inl e \<Rightarrow> Inl e
                     | Inr x \<Rightarrow>
                         (case int64_add row (oy t) of
                            Inl e \<Rightarrow> Inl e
                          | Inr y \<Rightarrow> Inr (Some x, Some y)))))"
    unfolding chunks_def nr_def nc_def cs_def togo_mask(2,3) [symmetric]
    by (rule find_coords_eq [OF assms(2,3) togo_mask(1) assms(5)])
  have none: "find_coords t chunk_size = Inr (None, None)"
    if zero: "\<forall>a < nr. \<forall>c < nc. chunk_count m cs a c = 0"
  proof -
    have "\<forall>k < length chunks. count_true (chunks ! k) \<le> 0"
    proof (intro allI impI)
      fix k assume "k < length chunks"
      then have k: "k < nr * nc"
        by (simp add: len)
      then have "k div nc < nr" "k mod nc < nc"
        using nc by (simp_all add: less_mult_imp_div_less)
      then show "count_true (chunks ! k) \<le> 0"
        using zero nth [OF k] by simp
    qed
    then have "fast_max_chunk chunks = - 1"
      unfolding fast_max_chunk_def by (rule fast_max_chunk_loop_keeps)
    then show ?thesis
      by (simp add: coords)
  qed
  have some: "\<exists>a < nr. \<exists>c < nc.
         find_coords t chunk_size =
           Inr (Some (int c * chunk_size + chunk_size div 2 + ox t),
                Some (int a * chunk_size + chunk_size div 2 + oy t))
         \<and> (\<forall>a' < nr. \<forall>c' < nc. chunk_count m cs a' c' \<le> chunk_count m cs a c)
         \<and> (\<forall>a' < nr. \<forall>c' < nc. a' < a \<or> (a' = a \<and> c' < c)
                \<longrightarrow> chunk_count m cs a' c' < chunk_count m cs a c)"
    if nonzero: "\<exists>a < nr. \<exists>c < nc. chunk_count m cs a c \<noteq> 0"
  proof -
    from nonzero obtain a0 c0 where "a0 < nr" "c0 < nc" "chunk_count m cs a0 c0 \<noteq> 0"
      by blast
    then have "a0 * nc + c0 < length chunks" "0 < count_true (chunks ! (a0 * nc + c0))"
      using at [of a0 c0] row_major_less [of a0 nr c0 nc] by (simp_all add: len)
    then have "\<exists>k < length chunks. 0 < count_true (chunks ! k)"
      by blast
    from fast_max_chunk_loop_finds [OF this, of "- 1" 0]
    obtain k where k: "k < nr * nc" "fast_max_chunk chunks = int k"
      "\<forall>k' < nr * nc. count_true (chunks ! k') \<le> count_true (chunks ! k)"
      "\<forall>k' < k. count_true (chunks ! k') < count_true (chunks ! k)"
      by (auto simp: fast_max_chunk_def len)
    let ?a = "k div nc" and ?c = "k mod nc"
    have range: "?a < nr" "?c < nc"
      using k(1) nc by (simp_all add: less_mult_imp_div_less)
    have k_eq: "k = ?a * nc + ?c"
      by simp
    have index: "int k div int nc = int ?a" "int k mod int nc = int ?c"
      by (simp_all add: zdiv_int zmod_int)
    have "?a \<le> shape0 m div nat chunk_size" "?c \<le> shape1 m div nat chunk_size"
      using range by (simp_all add: nr_def nc_def cs_def)
    note row = chunk_centre_exact [OF assms(5) this(1) rows_fit]
      and col = chunk_centre_exact [OF assms(5) this(2) cols_fit]
    have "find_coords t chunk_size =
           Inr (Some (int ?c * chunk_size + chunk_size div 2 + ox t),
                Some (int ?a * chunk_size + chunk_size div 2 + oy t))"
      unfolding coords k(2) index by (simp only: row col sum.case) simp
    moreover have "chunk_count m cs a' c' \<le> chunk_count m cs ?a ?c"
      if "a' < nr" "c' < nc" for a' c'
      using k(3) row_major_less [OF that] at [OF that] nth [OF k(1)] by force
    moreover have "chunk_count m cs a' c' < chunk_count m cs ?a ?c"
      if "a' < nr" "c' < nc" "a' < ?a \<or> (a' = ?a \<and> c' < ?c)" for a' c'
    proof -
      have "a' * nc + c' < ?a * nc + ?c"
        using that(2,3) by (rule row_major_order)
      then have "a' * nc + c' < k"
        by simp
      then show ?thesis
        using k(4) at [OF that(1,2)] nth [OF k(1)] by force
    qed
    ultimately show ?thesis
      using range by blast
  qed
  have single: "find_coords t chunk_size =
         Inr (Some (int (x0 div cs) * chunk_size + chunk_size div 2 + ox t),
              Some (int (y0 div cs) * chunk_size + chunk_size div 2 + oy t))"
    if inside: "y0 < shape0 m" "x0 < shape1 m"
      and only: "\<forall>y < shape0 m. \<forall>x < shape1 m. item m y x \<longleftrightarrow> y = y0 \<and> x = x0"
    for y0 x0
  proof -
    have "y0 mod cs < cs" "x0 mod cs < cs"
      "y0 div cs * cs + y0 mod cs < shape0 m" "x0 div cs * cs + x0 mod cs < shape1 m"
      "item m (y0 div cs * cs + y0 mod cs) (x0 div cs * cs + x0 mod cs)"
      using inside only cs by simp_all
    then have here: "0 < chunk_count m cs (y0 div cs) (x0 div cs)"
      unfolding chunk_count_positive by blast
    have "y0 div cs \<le> shape0 m div cs" "x0 div cs \<le> shape1 m div cs"
      using inside by (simp_all add: div_le_mono)
    then have range0: "y0 div cs < nr" "x0 div cs < nc"
      by (simp_all add: nr_def nc_def)
    then have "\<exists>a < nr. \<exists>c < nc. chunk_count m cs a c \<noteq> 0"
      using here by (metis less_numeral_extra(3))
    from some [OF this] obtain a c where found:
      "find_coords t chunk_size =
         Inr (Some (int c * chunk_size + chunk_size div 2 + ox t),
              Some (int a * chunk_size + chunk_size div 2 + oy t))"
      "\<forall>a' < nr. \<forall>c' < nc. chunk_count m cs a' c' \<le> chunk_count m cs a c"
      by blast
    from found(2) range0 here have "0 < chunk_count m cs a c"
      by (meson less_le_trans)
    then obtain b d where cell: "b < cs" "d < cs" "a * cs + b < shape0 m" "c * cs + d < shape1 m"
      "item m (a * cs + b) (c * cs + d)"
      unfolding chunk_count_positive by blast
    with only have "a * cs + b = y0" "c * cs + d = x0"
      by blast+
    with cell(1,2) have "y0 div cs = a" "x0 div cs = c"
      by auto
    with found(1) show ?thesis
      by simp
  qed
  from none some single show ?thesis
    by blast
qed

theorem find_coords_hot_chunk_witness:
  "placed_mask hot_template = Some hot_placed
   \<and> placeable_mask hot_template = Some (not_transparent grid22)
   \<and> same_shape hot_placed (not_transparent grid22)
   \<and> (0::int) < 2
   \<and> int (shape0 (togo hot_placed (not_transparent grid22))) + 2 < 2 ^ 63
   \<and> - (2 ^ 63) \<le> oy hot_template
   \<and> oy hot_template + int (shape0 (togo hot_placed (not_transparent grid22))) + 2 < 2 ^ 63
   \<and> int (shape1 (togo hot_placed (not_transparent grid22))) + 2 < 2 ^ 63
   \<and> - (2 ^ 63) \<le> ox hot_template
   \<and> ox hot_template + int (shape1 (togo hot_placed (not_transparent grid22))) + 2 < 2 ^ 63
   \<and> (1::nat) < shape0 (togo hot_placed (not_transparent grid22))
   \<and> (1::nat) < shape1 (togo hot_placed (not_transparent grid22))
   \<and> item (togo hot_placed (not_transparent grid22)) 1 1
   \<and> \<not> item (togo hot_placed (not_transparent grid22)) 0 0
   \<and> \<not> item (togo hot_placed (not_transparent grid22)) 0 1
   \<and> \<not> item (togo hot_placed (not_transparent grid22)) 1 0
   \<and> find_coords hot_template 2 = Inr (Some 4, Some 6)"
proof -
  let ?m = "togo hot_placed (not_transparent grid22)"
  have masks: "placed_mask hot_template = Some hot_placed"
    "placeable_mask hot_template = Some (not_transparent grid22)"
    by (simp_all add: hot_template_def bare_template_def)
  have same: "same_shape hot_placed (not_transparent grid22)"
    by (simp add: same_shape_def hot_placed_def not_transparent_def grid22_def from_rows_def)
  have pos: "(0::int) < 2"
    by simp
  have shape: "shape0 ?m = 2" "shape1 ?m = 2"
    by (simp_all add: togo_def not_transparent_def grid22_def from_rows_def)
  have cells: "item ?m 1 1" "\<not> item ?m 0 0" "\<not> item ?m 0 1" "\<not> item ?m 1 0"
    by (simp_all add: togo_def not_transparent_def grid22_def hot_placed_def from_rows_def)
  have only: "\<forall>y < shape0 ?m. \<forall>x < shape1 ?m. item ?m y x \<longleftrightarrow> y = 1 \<and> x = 1"
    unfolding shape using cells by (auto simp: less_Suc_eq numeral_2_eq_2)
  have origin: "ox hot_template = 3" "oy hot_template = 5"
    by (simp_all add: hot_template_def bare_template_def)
  have inside: "1 < shape0 ?m" "1 < shape1 ?m"
    by (simp_all add: shape)
  have rows_fit: "int (shape0 ?m) + 2 < 2 ^ 63" "- (2 ^ 63) \<le> oy hot_template"
    "oy hot_template + int (shape0 ?m) + 2 < 2 ^ 63"
    by (simp_all add: shape origin)
  have cols_fit: "int (shape1 ?m) + 2 < 2 ^ 63" "- (2 ^ 63) \<le> ox hot_template"
    "ox hot_template + int (shape1 ?m) + 2 < 2 ^ 63"
    by (simp_all add: shape origin)
  have "find_coords hot_template 2 = Inr (Some 4, Some 6)"
    using find_coords_hot_chunk [OF masks same pos rows_fit cols_fit,
        THEN conjunct2, THEN conjunct2, rule_format, OF inside] only
    by (simp add: origin)
  then show ?thesis
    using masks same cells shape rows_fit cols_fit by simp
qed

section \<open>Properties of the registry\<close>

text \<open>
  The loop of \<open>get_template\<close> finds a template exactly when one of the scope bears the
  name, provided every tracked template has a name; without that proviso it still does
  not report that the name is free when it is taken.
\<close>

lemma get_template_loop_taken:
  assumes "\<exists>t \<in> set ts. in_scope t owner hid
             \<and> (case name t of None \<Rightarrow> False | Some n \<Rightarrow> lower n = lower nm)"
  shows "get_template_loop ts i nm (Some owner) hid \<noteq> Inr None"
  using assms
proof (induction ts arbitrary: i)
  case Nil
  then show ?case by simp
next
  case (Cons temp rest)
  then show ?case
    by (cases "name temp") (auto simp: in_scope_def split: if_splits)
qed

lemma get_template_loop_free:
  assumes "\<forall>t \<in> set ts. name t \<noteq> None"
    and "\<not> (\<exists>t \<in> set ts. in_scope t owner hid
             \<and> (case name t of None \<Rightarrow> False | Some n \<Rightarrow> lower n = lower nm))"
  shows "get_template_loop ts i nm (Some owner) hid = Inr None"
  using assms
proof (induction ts arbitrary: i)
  case Nil
  then show ?case by simp
next
  case (Cons temp rest)
  then show ?case
    by (cases "name temp") (auto simp: in_scope_def split: if_splits)
qed

lemma get_template_loop_found:
  assumes "\<forall>t \<in> set ts. name t \<noteq> None"
    and "\<exists>t \<in> set ts. in_scope t owner hid
             \<and> (case name t of None \<Rightarrow> False | Some n \<Rightarrow> lower n = lower nm)"
  shows "\<exists>r. get_template_loop ts i nm (Some owner) hid = Inr (Some r)"
  using assms
proof (induction ts arbitrary: i)
  case Nil
  then show ?case by simp
next
  case (Cons temp rest)
  then show ?case
    by (cases "name temp") (auto simp: in_scope_def split: if_splits)
qed

text \<open>
  \<open>check_duplicate_template\<close> finds a position exactly when the image is taken in the
  scope given by the template's own flag and owner.
\<close>

lemma check_duplicate_template_iff:
  assumes "truthy (hidden template) = hid" and "owner_id template = Some owner"
  shows "check_duplicate_template m template \<noteq> None \<longleftrightarrow> image_taken m template owner hid"
proof (cases hid)
  case True
  then have "check_duplicate_template m template \<noteq> None \<longleftrightarrow>
      (\<exists>i < length (tlist m). truthy (hidden (tlist m ! i)) \<and> owner_id (tlist m ! i) = Some owner
         \<and> array_equal (palettized_array template) (palettized_array (tlist m ! i))
         \<and> oy template = oy (tlist m ! i) \<and> ox template = ox (tlist m ! i))"
    using assms
    by (auto simp: check_duplicate_template_def get_hidden_templates_def Let_def find_None_iff)
  also have "\<dots> \<longleftrightarrow> image_taken m template owner hid"
    using True by (simp add: image_taken_def in_scope_def) (metis in_set_conv_nth)
  finally show ?thesis .
next
  case False
  then have "check_duplicate_template m template \<noteq> None \<longleftrightarrow>
      (\<exists>i < length (tlist m). \<not> truthy (hidden (tlist m ! i))
         \<and> array_equal (palettized_array template) (palettized_array (tlist m ! i))
         \<and> oy template = oy (tlist m ! i) \<and> ox template = ox (tlist m ! i))"
    using assms
    by (auto simp: check_duplicate_template_def get_all_public_templates_def Let_def
        find_None_iff)
  also have "\<dots> \<longleftrightarrow> image_taken m template owner hid"
    using False by (simp add: image_taken_def in_scope_def) (metis in_set_conv_nth)
  finally show ?thesis .
qed

lemma check_duplicate_template_position:
  assumes "check_duplicate_template m template = Some i"
  shows "i < length (tlist m)"
proof -
  from assms have "i \<in> set [0..<length (tlist m)]"
    by (auto simp: check_duplicate_template_def get_hidden_templates_def
        get_all_public_templates_def Let_def find_Some_iff split: if_splits)
      (metis filter_is_subset nth_mem subsetD set_upt atLeastLessThan_iff)+
  then show ?thesis
    by simp
qed

lemma check_valid_name_Inr:
  assumes "check_valid_name nm = Inr nm'"
  shows "nm' = nm" and "lower nm \<notin> set reserved_names"
  using assms by (auto simp: check_valid_name_def split: if_splits)

lemma get_template_regular:
  assumes "lower nm \<notin> set reserved_names"
  shows "get_template m nm owner hid = get_template_loop (tlist m) 0 nm owner hid"
  using assms by (simp add: get_template_def)

text \<open>
  \<open>save\<close> reaches the storage and the list only after \<open>get_template\<close> has found no
  template and \<open>check_duplicate_template\<close> no position; on every other path it
  raises and returns the registry as it was.
\<close>

lemma save_blocked:
  fixes template0 :: template and nm :: string and owner :: int and hid :: bool
  defines "template \<equiv> template0\<lparr>name := Some nm, owner_id := Some owner, hidden := Some hid\<rparr>"
  assumes "get_template m nm (Some owner) hid \<noteq> Inr None
           \<or> check_duplicate_template m template \<noteq> None"
  shows "\<exists>e. save m st create_template template0 nm owner hid = (Inl e, m)"
proof (cases "check_valid_name nm")
  case (Inl e)
  then show ?thesis
    by (simp add: save_def)
next
  case (Inr nm')
  then have nm': "nm' = nm"
    by (rule check_valid_name_Inr)
  have same: "template\<lparr>name := Some nm\<rparr> = template"
    and own: "owner_id template = Some owner"
    by (simp_all add: template_def)
  show ?thesis
    using assms(2) Inr
    unfolding save_def Let_def template_def [symmetric] nm'
    by (auto simp: same own split: option.splits sum.splits)
qed

end
